theory Spec2Isabelle
  imports Complex_Main
begin

section \<open>Python values used by the module\<close>

subsection \<open>Numbers\<close>

text \<open>
  A coordinate is a Python \<^verbatim>\<open>float\<close>: a finite binary fraction with a sign bit,
  an infinity, or a NaN. \<open>Finite s m e\<close> is the number \<open>m * 2 ^ e\<close>, negated when the
  sign bit \<open>s\<close> is set; the sign is kept apart from the magnitude so that \<open>-0.0\<close> is a
  value of its own. The magnitude is not bounded, so every IEEE double is a value of
  this type, and so is every Python \<^verbatim>\<open>int\<close> a caller passes where a float is
  expected. \<open>Infinity True\<close> is \<open>-inf\<close>.
\<close>

datatype pyfloat = Finite bool nat int | Infinity bool | NaN

definition finite_val :: "bool \<Rightarrow> nat \<Rightarrow> int \<Rightarrow> rat" where
  "finite_val s m e =
     (if s then - 1 else 1) * of_nat m * (if 0 \<le> e then 2 ^ nat e else 1 / 2 ^ nat (- e))"

text \<open>
  Python's \<^verbatim>\<open><\<close> and \<^verbatim>\<open><=\<close> on floats: exact, and false whenever a NaN takes part.
\<close>

fun float_lt :: "pyfloat \<Rightarrow> pyfloat \<Rightarrow> bool" where
  "float_lt NaN b = False"
| "float_lt (Infinity sa) NaN = False"
| "float_lt (Finite s m e) NaN = False"
| "float_lt (Infinity sa) (Infinity sb) = (sa \<and> \<not> sb)"
| "float_lt (Infinity sa) (Finite s m e) = sa"
| "float_lt (Finite s m e) (Infinity sb) = (\<not> sb)"
| "float_lt (Finite s m e) (Finite s' m' e') = (finite_val s m e < finite_val s' m' e')"

fun float_le :: "pyfloat \<Rightarrow> pyfloat \<Rightarrow> bool" where
  "float_le NaN b = False"
| "float_le (Infinity sa) NaN = False"
| "float_le (Finite s m e) NaN = False"
| "float_le (Infinity sa) (Infinity sb) = (sa \<or> \<not> sb)"
| "float_le (Infinity sa) (Finite s m e) = sa"
| "float_le (Finite s m e) (Infinity sb) = (\<not> sb)"
| "float_le (Finite s m e) (Finite s' m' e') = (finite_val s m e \<le> finite_val s' m' e')"

text \<open>
  The built-ins \<^verbatim>\<open>min(a, b)\<close> and \<^verbatim>\<open>max(a, b)\<close> keep the first argument unless the
  second is strictly smaller (\<^verbatim>\<open>b < a\<close>), respectively strictly greater
  (\<^verbatim>\<open>b > a\<close>).
\<close>

definition py_min :: "pyfloat \<Rightarrow> pyfloat \<Rightarrow> pyfloat" where
  "py_min a b = (if float_lt b a then b else a)"

definition py_max :: "pyfloat \<Rightarrow> pyfloat \<Rightarrow> pyfloat" where
  "py_max a b = (if float_lt a b then b else a)"

subsection \<open>Formatting\<close>

text \<open>
  \<^verbatim>\<open>'%d' % i\<close>: the decimal digits of an integer, with a minus sign when negative.
\<close>

definition digit_char :: "nat \<Rightarrow> char" where
  "digit_char d = ''0123456789'' ! d"

fun str_nat :: "nat \<Rightarrow> string" where
  "str_nat n = (if n < 10 then [digit_char n] else str_nat (n div 10) @ [digit_char (n mod 10)])"

declare str_nat.simps [simp del]

definition str_int :: "int \<Rightarrow> string" where
  "str_int i = (if i < 0 then CHR ''-'' # str_nat (nat (- i)) else str_nat (nat i))"

text \<open>
  \<^verbatim>\<open>('%%.%df' % significant_digits) % v\<close>: the inner format builds the format string
  \<^verbatim>\<open>'%.<p>f'\<close>, the outer one renders \<open>v\<close> in fixed-point notation with \<open>p\<close> digits
  after the decimal point. Python rounds the exact binary value to the nearest multiple
  of \<open>10 ^ - p\<close>, ties to even; with \<open>p = 0\<close> no decimal point is written; a NaN is
  \<^verbatim>\<open>nan\<close> and the infinities are \<^verbatim>\<open>inf\<close> and \<^verbatim>\<open>-inf\<close>. The precision is a
  \<^typ>\<open>nat\<close>: a negative \<^verbatim>\<open>significant_digits\<close> is not a format Python accepts.
\<close>

definition round_half_even :: "nat \<Rightarrow> nat \<Rightarrow> nat" where
  "round_half_even num den =
     (let q = num div den; r = num mod den
      in if den < 2 * r \<or> (2 * r = den \<and> odd q) then q + 1 else q)"

definition scaled :: "nat \<Rightarrow> int \<Rightarrow> nat \<Rightarrow> nat" where
  "scaled m e p =
     (if 0 \<le> e then m * 2 ^ nat e * 10 ^ p
      else round_half_even (m * 10 ^ p) (2 ^ nat (- e)))"

definition format_f :: "nat \<Rightarrow> pyfloat \<Rightarrow> string" where
  "format_f p v =
     (case v of
        NaN \<Rightarrow> ''nan''
      | Infinity s \<Rightarrow> (if s then ''-inf'' else ''inf'')
      | Finite s m e \<Rightarrow>
          (let ds = str_nat (scaled m e p);
               padded = replicate (p + 1 - length ds) (CHR ''0'') @ ds;
               n = length padded - p
           in (if s then ''-'' else '''') @ take n padded @
              (if p = 0 then '''' else CHR ''.'' # drop n padded)))"

subsection \<open>Strings and dictionaries\<close>

text \<open>
  \<^verbatim>\<open>s.strip(chars)\<close> removes the characters of \<open>chars\<close> from both ends of \<open>s\<close>;
  \<^verbatim>\<open>sep.join(xs)\<close> concatenates with the separator between neighbours.
\<close>

definition py_strip :: "string \<Rightarrow> string \<Rightarrow> string" where
  "py_strip chars s =
     rev (dropWhile (\<lambda>c. c \<in> set chars) (rev (dropWhile (\<lambda>c. c \<in> set chars) s)))"

fun py_join :: "string \<Rightarrow> string list \<Rightarrow> string" where
  "py_join sep [] = []"
| "py_join sep [s] = s"
| "py_join sep (s # t # ss) = s @ sep @ py_join sep (t # ss)"

text \<open>
  A \<^verbatim>\<open>dict\<close> keeps its keys in insertion order: it is an association list.
  Assigning to a key that is present replaces the value in place, assigning to a new key
  appends. \<^verbatim>\<open>d.update(other)\<close> assigns the items of \<open>other\<close> in their order.
\<close>

fun dict_set :: "('k \<times> 'v) list \<Rightarrow> 'k \<Rightarrow> 'v \<Rightarrow> ('k \<times> 'v) list" where
  "dict_set [] k v = [(k, v)]"
| "dict_set ((k', v') # d) k v = (if k' = k then (k, v) # d else (k', v') # dict_set d k v)"

fun dict_update :: "('k \<times> 'v) list \<Rightarrow> ('k \<times> 'v) list \<Rightarrow> ('k \<times> 'v) list" where
  "dict_update d [] = d"
| "dict_update d ((k, v) # other) = dict_update (dict_set d k v) other"

section \<open>The element tree of lxml\<close>

text \<open>
  The module builds its markup with \<^verbatim>\<open>lxml.etree\<close>. An element has a tag,
  attributes in the order of the dictionary it was made from, and children; the module
  never sets text. \<^verbatim>\<open>etree.Element\<close> raises \<^verbatim>\<open>ValueError\<close> when the tag or an
  attribute name is not an XML name, or when an attribute value is not XML-compatible
  text. The two checks belong to the library, so they are a parameter of the model:
  every function that builds an element takes them.
\<close>

datatype error = ValueError | AttributeError

datatype element =
  Element (tag_of: string) (attrib_of: "(string \<times> string) list") (children_of: "element list")

record lxml =
  name_ok :: "string \<Rightarrow> bool"
  text_ok :: "string \<Rightarrow> bool"

definition accepts :: "lxml \<Rightarrow> string \<Rightarrow> (string \<times> string) list \<Rightarrow> bool" where
  "accepts lx tag attrib =
     (name_ok lx tag \<and> list_all (\<lambda>(k, v). name_ok lx k \<and> text_ok lx v) attrib)"

definition etree_Element :: "lxml \<Rightarrow> string \<Rightarrow> (string \<times> string) list \<Rightarrow> error + element" where
  "etree_Element lx tag attrib =
     (if accepts lx tag attrib then Inr (Element tag attrib []) else Inl ValueError)"

fun append_child :: "element \<Rightarrow> element \<Rightarrow> element" where
  "append_child (Element t a cs) c = Element t a (cs @ [c])"

text \<open>
  \<^verbatim>\<open>etree.tostring(xmlobject, encoding='unicode')\<close>: attribute values are escaped,
  an element without children is self-closing.
\<close>

definition escape_attr_char :: "char \<Rightarrow> string" where
  "escape_attr_char c =
     (if c = CHR ''&'' then ''&amp;''
      else if c = CHR ''<'' then ''&lt;''
      else if c = CHR ''>'' then ''&gt;''
      else if c = CHR 0x22 then ''&quot;''
      else if c = CHR 0x09 then ''&#9;''
      else if c = CHR 0x0A then ''&#10;''
      else if c = CHR 0x0D then ''&#13;''
      else [c])"

definition attr_text :: "string \<times> string \<Rightarrow> string" where
  "attr_text kv =
     '' '' @ fst kv @ ''='' @ [CHR 0x22] @ concat (map escape_attr_char (snd kv)) @ [CHR 0x22]"

fun tostring :: "element \<Rightarrow> string" where
  "tostring (Element t a cs) =
     ''<'' @ t @ concat (map attr_text a) @
     (if cs = [] then ''/>'' else ''>'' @ concat (map tostring cs) @ ''</'' @ t @ ''>'')"

text \<open>
  An instance of the library's checks, exact on ASCII text: a name starts with a letter
  or an underscore and goes on with letters, digits, dots, hyphens and underscores; text
  has no control character but tab, line feed and carriage return.
\<close>

definition ascii_name_start :: "char \<Rightarrow> bool" where
  "ascii_name_start c =
     (c \<in> set ''ABCDEFGHIJKLMNOPQRSTUVWXYZabcdefghijklmnopqrstuvwxyz_'')"

definition ascii_name_ok :: "string \<Rightarrow> bool" where
  "ascii_name_ok s =
     (case s of
        [] \<Rightarrow> False
      | c # cs \<Rightarrow> ascii_name_start c \<and>
          list_all (\<lambda>d. ascii_name_start d \<or> d \<in> set ''0123456789.-'') cs)"

definition ascii_text_ok :: "string \<Rightarrow> bool" where
  "ascii_text_ok s =
     list_all (\<lambda>c. (32::nat) \<le> of_char c \<or> c = CHR 0x09 \<or> c = CHR 0x0A \<or> c = CHR 0x0D) s"

definition lxml_ascii :: lxml where
  "lxml_ascii = \<lparr> name_ok = ascii_name_ok, text_ok = ascii_text_ok \<rparr>"

section \<open>The identifier allocator (class OsmId)\<close>

text \<open>
  The class attributes \<^verbatim>\<open>OsmId.element_id_counter\<close> and
  \<^verbatim>\<open>OsmId.element_id_counter_incr\<close> are process-wide mutable state. They are a
  record that every operation takes and returns. Python integers are unbounded, so both
  fields are \<^typ>\<open>int\<close>.
\<close>

record OsmId =
  element_id_counter :: int
  element_id_counter_incr :: int

text \<open>The values of the class attributes when the module is loaded.\<close>

definition OsmId_init :: OsmId where
  "OsmId_init = \<lparr> element_id_counter = 0, element_id_counter_incr = - 1 \<rparr>"

text \<open>
  \<^verbatim>\<open>set_id(start_id, is_positive = False)\<close>: the counter is assigned, the increment
  only under \<^verbatim>\<open>if is_positive\<close>; there is no \<^verbatim>\<open>else\<close> branch.
\<close>

definition set_id :: "int \<Rightarrow> bool \<Rightarrow> OsmId \<Rightarrow> OsmId" where
  "set_id start_id is_positive s =
     (let s1 = s\<lparr> element_id_counter := start_id \<rparr>
      in if is_positive then s1\<lparr> element_id_counter_incr := 1 \<rparr> else s1)"

text \<open>
  \<^verbatim>\<open>load_id(filename)\<close> assigns \<^verbatim>\<open>int(ff.readline(20))\<close> to the counter. The
  file is outside the model: the argument is the integer read, or \<open>None\<close> when
  \<^verbatim>\<open>int\<close> raises \<^verbatim>\<open>ValueError\<close>, in which case the assignment does not happen.
  \<^verbatim>\<open>save_id\<close> writes the counter out and changes nothing.
\<close>

definition load_id :: "int option \<Rightarrow> OsmId \<Rightarrow> error + OsmId" where
  "load_id parsed s =
     (case parsed of
        None \<Rightarrow> Inl ValueError
      | Some n \<Rightarrow> Inr (s\<lparr> element_id_counter := n \<rparr>))"

definition save_id :: "OsmId \<Rightarrow> string" where
  "save_id s = str_int (element_id_counter s)"

text \<open>\<^verbatim>\<open>__get_new_id\<close>: add the increment to the counter, return the new counter.\<close>

definition get_new_id :: "OsmId \<Rightarrow> int \<times> OsmId" where
  "get_new_id s =
     (let s' = s\<lparr> element_id_counter := element_id_counter s + element_id_counter_incr s \<rparr>
      in (element_id_counter s', s'))"

section \<open>The bounding box (class OsmBoundary)\<close>

record OsmBoundary =
  is_valid :: bool
  minlon :: pyfloat
  maxlon :: pyfloat
  minlat :: pyfloat
  maxlat :: pyfloat

definition OsmBoundary_init :: OsmBoundary where
  "OsmBoundary_init =
     \<lparr> is_valid = False, minlon = Finite False 0 0, maxlon = Finite False 0 0,
       minlat = Finite False 0 0, maxlat = Finite False 0 0 \<rparr>"

definition add_envelope ::
  "pyfloat \<Rightarrow> pyfloat \<Rightarrow> pyfloat \<Rightarrow> pyfloat \<Rightarrow> OsmBoundary \<Rightarrow> OsmBoundary" where
  "add_envelope minx maxx miny maxy self =
     (if is_valid self
      then self\<lparr> minlon := py_min (minlon self) minx, maxlon := py_max (maxlon self) maxx,
                 minlat := py_min (minlat self) miny, maxlat := py_max (maxlat self) maxy \<rparr>
      else self\<lparr> is_valid := True, minlon := minx, maxlon := maxx,
                 minlat := miny, maxlat := maxy \<rparr>)"

definition OsmBoundary_xmlobject :: "lxml \<Rightarrow> nat \<Rightarrow> OsmBoundary \<Rightarrow> error + element" where
  "OsmBoundary_xmlobject lx significant_digits self =
     (let xmlattrs =
            [(''minlon'', py_strip ''0'' (format_f significant_digits (minlon self))),
             (''minlat'', py_strip ''0'' (format_f significant_digits (minlat self))),
             (''maxlon'', py_strip ''0'' (format_f significant_digits (maxlon self))),
             (''maxlat'', py_strip ''0'' (format_f significant_digits (maxlat self)))]
      in etree_Element lx ''bounds'' xmlattrs)"

definition OsmBoundary_to_xml :: "lxml \<Rightarrow> nat \<Rightarrow> OsmBoundary \<Rightarrow> error + string" where
  "OsmBoundary_to_xml lx significant_digits self =
     (case OsmBoundary_xmlobject lx significant_digits self of
        Inl err \<Rightarrow> Inl err
      | Inr xmlobject \<Rightarrow> Inr (tostring xmlobject))"

section \<open>Entities (classes OsmGeometry, OsmNode, OsmWay, OsmRelation)\<close>

text \<open>
  Entities are objects that refer to each other: a way lists its nodes, a relation its
  members, every entity its parents, and \<^verbatim>\<open>m[0] == member\<close> compares object
  identity (the classes define no \<^verbatim>\<open>__eq__\<close>). So objects live in a heap, a
  reference is an index into it, and a new object is appended. The three classes are the
  constructors of one datatype; the fields of the base class come first, then \<open>x\<close> and
  \<open>y\<close>, the nodes, or the members. The base class is only instantiated through its
  subclasses. A stored tag maps its key to a list of strings. The tags handed to a
  constructor map a key to a string or to \<^verbatim>\<open>None\<close>.
\<close>

type_synonym ref = nat

datatype OsmGeometry =
    OsmNode (id_of: int) (tags_of: "(string \<times> string list) list") (parents_of: "ref set")
      pyfloat pyfloat
  | OsmWay (id_of: int) (tags_of: "(string \<times> string list) list") (parents_of: "ref set")
      "ref list"
  | OsmRelation (id_of: int) (tags_of: "(string \<times> string list) list") (parents_of: "ref set")
      "(ref \<times> string) list"

record world =
  osm_id :: OsmId
  heap :: "OsmGeometry list"

definition world_init :: world where
  "world_init = \<lparr> osm_id = OsmId_init, heap = [] \<rparr>"

text \<open>
  \<^verbatim>\<open>_append_non_empty_tags\<close>: for each item of the given dictionary, in order, a
  truthy value is stored as a one-element list under its key. \<^verbatim>\<open>None\<close> and the
  empty string are the falsy values.
\<close>

fun truthy :: "string option \<Rightarrow> bool" where
  "truthy None = False"
| "truthy (Some v) = (v \<noteq> [])"

fun append_non_empty_tags ::
  "(string \<times> string list) list \<Rightarrow> (string \<times> string option) list \<Rightarrow> (string \<times> string list) list"
where
  "append_non_empty_tags self_tags [] = self_tags"
| "append_non_empty_tags self_tags ((key, value) # rest) =
     (if truthy value
      then append_non_empty_tags (dict_set self_tags key [the value]) rest
      else append_non_empty_tags self_tags rest)"

text \<open>
  The constructors. \<^verbatim>\<open>OsmGeometry.__init__\<close> takes a new id, then sets empty tags
  and an empty parent set; the subclass sets its own fields and appends the non-empty
  tags. Each returns the reference of the new object and the new state.
\<close>

definition OsmNode_init ::
  "pyfloat \<Rightarrow> pyfloat \<Rightarrow> (string \<times> string option) list \<Rightarrow> world \<Rightarrow> ref \<times> world" where
  "OsmNode_init x y tags w =
     (let (new_id, ids) = get_new_id (osm_id w);
          self = OsmNode new_id (append_non_empty_tags [] tags) {} x y
      in (length (heap w), w\<lparr> osm_id := ids, heap := heap w @ [self] \<rparr>))"

definition OsmWay_init :: "(string \<times> string option) list \<Rightarrow> world \<Rightarrow> ref \<times> world" where
  "OsmWay_init tags w =
     (let (new_id, ids) = get_new_id (osm_id w);
          self = OsmWay new_id (append_non_empty_tags [] tags) {} []
      in (length (heap w), w\<lparr> osm_id := ids, heap := heap w @ [self] \<rparr>))"

definition OsmRelation_init :: "(string \<times> string option) list \<Rightarrow> world \<Rightarrow> ref \<times> world" where
  "OsmRelation_init tags w =
     (let (new_id, ids) = get_new_id (osm_id w);
          self = OsmRelation new_id (append_non_empty_tags [] tags) {} []
      in (length (heap w), w\<lparr> osm_id := ids, heap := heap w @ [self] \<rparr>))"

text \<open>
  \<^verbatim>\<open>addparent\<close>, \<^verbatim>\<open>removeparent\<close> and \<^verbatim>\<open>get_parents\<close> work on the parent
  set only.
\<close>

fun set_parents :: "ref set \<Rightarrow> OsmGeometry \<Rightarrow> OsmGeometry" where
  "set_parents ps (OsmNode i tg _ x y) = OsmNode i tg ps x y"
| "set_parents ps (OsmWay i tg _ ns) = OsmWay i tg ps ns"
| "set_parents ps (OsmRelation i tg _ ms) = OsmRelation i tg ps ms"

definition addparent :: "ref \<Rightarrow> OsmGeometry \<Rightarrow> OsmGeometry" where
  "addparent parent self = set_parents (insert parent (parents_of self)) self"

definition removeparent :: "ref \<Rightarrow> OsmGeometry \<Rightarrow> OsmGeometry" where
  "removeparent parent self = set_parents (parents_of self - {parent}) self"

definition get_parents :: "OsmGeometry \<Rightarrow> ref set" where
  "get_parents self = parents_of self"

text \<open>
  \<^verbatim>\<open>get_member_role\<close>: the roles of the pairs whose first component is the given
  object; the first of them if any of them is truthy, else the empty string.
\<close>

definition get_member_role :: "(ref \<times> string) list \<Rightarrow> ref \<Rightarrow> string" where
  "get_member_role members member =
     (let member_roles = map snd (filter (\<lambda>m. fst m = member) members)
      in if list_ex (\<lambda>r. r \<noteq> []) member_roles then hd member_roles else [])"

subsection \<open>Serialization\<close>

text \<open>
  The loop over \<^verbatim>\<open>self.tags.items()\<close> that all three \<^verbatim>\<open>to_xml\<close> methods end
  with: one \<^verbatim>\<open>tag\<close> child per stored key, its value the comma-join of the value
  list.
\<close>

fun append_tags ::
  "lxml \<Rightarrow> (string \<times> string list) list \<Rightarrow> element \<Rightarrow> error + element" where
  "append_tags lx [] xmlobject = Inr xmlobject"
| "append_tags lx ((key, value_list) # rest) xmlobject =
     (case etree_Element lx ''tag'' [(''k'', key), (''v'', py_join '','' value_list)] of
        Inl err \<Rightarrow> Inl err
      | Inr tag \<Rightarrow> append_tags lx rest (append_child xmlobject tag))"

text \<open>
  The loop of \<^verbatim>\<open>OsmWay.to_xml\<close> over \<^verbatim>\<open>self.nodes\<close>. Reading \<^verbatim>\<open>node.id\<close>
  of something that is no entity raises \<^verbatim>\<open>AttributeError\<close>; in the model that is a
  reference outside the heap.
\<close>

fun append_nds :: "lxml \<Rightarrow> OsmGeometry list \<Rightarrow> ref list \<Rightarrow> element \<Rightarrow> error + element" where
  "append_nds lx h [] xmlobject = Inr xmlobject"
| "append_nds lx h (node # rest) xmlobject =
     (if node < length h
      then (case etree_Element lx ''nd'' [(''ref'', str_int (id_of (h ! node)))] of
              Inl err \<Rightarrow> Inl err
            | Inr nd \<Rightarrow> append_nds lx h rest (append_child xmlobject nd))
      else Inl AttributeError)"

text \<open>
  The loop of \<^verbatim>\<open>OsmRelation.to_xml\<close> over \<^verbatim>\<open>self.members\<close>, with the chain of
  \<^verbatim>\<open>type(member) == ...\<close> tests.
\<close>

fun member_type :: "OsmGeometry \<Rightarrow> string" where
  "member_type (OsmNode _ _ _ _ _) = ''node''"
| "member_type (OsmWay _ _ _ _) = ''way''"
| "member_type (OsmRelation _ _ _ _) = ''relation''"

fun append_members ::
  "lxml \<Rightarrow> OsmGeometry list \<Rightarrow> (ref \<times> string) list \<Rightarrow> element \<Rightarrow> error + element" where
  "append_members lx h [] xmlobject = Inr xmlobject"
| "append_members lx h ((member, role) # rest) xmlobject =
     (if member < length h
      then (case etree_Element lx ''member''
                   [(''type'', member_type (h ! member)),
                    (''ref'', str_int (id_of (h ! member))),
                    (''role'', role)] of
              Inl err \<Rightarrow> Inl err
            | Inr xmlmember \<Rightarrow> append_members lx h rest (append_child xmlobject xmlmember))
      else Inl AttributeError)"

text \<open>
  The three \<^verbatim>\<open>to_xml\<close> methods, one equation per class, up to the element tree
  they build; \<open>to_xml\<close> is the method as called, which returns the tree as text.
\<close>

fun xmlobject_of ::
  "lxml \<Rightarrow> OsmGeometry list \<Rightarrow> (string \<times> string) list \<Rightarrow> nat \<Rightarrow> OsmGeometry \<Rightarrow> error + element"
where
  "xmlobject_of lx h attributes significant_digits (OsmNode i tg ps x y) =
     (let xmlattrs =
            dict_update
              [(''visible'', ''true''),
               (''id'', str_int i),
               (''lat'', py_strip ''0'' (format_f significant_digits y)),
               (''lon'', py_strip ''0'' (format_f significant_digits x))]
              attributes
      in case etree_Element lx ''node'' xmlattrs of
           Inl err \<Rightarrow> Inl err
         | Inr xmlobject \<Rightarrow> append_tags lx tg xmlobject)"
| "xmlobject_of lx h attributes significant_digits (OsmWay i tg ps nodes) =
     (let xmlattrs = dict_update [(''visible'', ''true''), (''id'', str_int i)] attributes
      in case etree_Element lx ''way'' xmlattrs of
           Inl err \<Rightarrow> Inl err
         | Inr xmlobject \<Rightarrow>
             (case append_nds lx h nodes xmlobject of
                Inl err \<Rightarrow> Inl err
              | Inr xmlobject' \<Rightarrow> append_tags lx tg xmlobject'))"
| "xmlobject_of lx h attributes significant_digits (OsmRelation i tg ps members) =
     (let xmlattrs = dict_update [(''visible'', ''true''), (''id'', str_int i)] attributes
      in case etree_Element lx ''relation'' xmlattrs of
           Inl err \<Rightarrow> Inl err
         | Inr xmlobject \<Rightarrow>
             (case append_members lx h members xmlobject of
                Inl err \<Rightarrow> Inl err
              | Inr xmlobject' \<Rightarrow>
                  (case etree_Element lx ''tag'' [(''k'', ''type''), (''v'', ''multipolygon'')] of
                     Inl err \<Rightarrow> Inl err
                   | Inr tag \<Rightarrow> append_tags lx tg (append_child xmlobject' tag))))"

definition to_xml ::
  "lxml \<Rightarrow> OsmGeometry list \<Rightarrow> (string \<times> string) list \<Rightarrow> nat \<Rightarrow> OsmGeometry \<Rightarrow> error + string"
where
  "to_xml lx h attributes significant_digits self =
     (case xmlobject_of lx h attributes significant_digits self of
        Inl err \<Rightarrow> Inl err
      | Inr xmlobject \<Rightarrow> Inr (tostring xmlobject))"

section \<open>Notions the properties are stated with\<close>

text \<open>
  A point lies within the bounds (by Python's \<^verbatim>\<open><=\<close>); a sequence of
  \<^verbatim>\<open>add_envelope\<close> calls.
\<close>

definition contains :: "OsmBoundary \<Rightarrow> pyfloat \<Rightarrow> pyfloat \<Rightarrow> bool" where
  "contains self lon lat =
     (float_le (minlon self) lon \<and> float_le lon (maxlon self) \<and>
      float_le (minlat self) lat \<and> float_le lat (maxlat self))"

fun add_envelopes ::
  "(pyfloat \<times> pyfloat \<times> pyfloat \<times> pyfloat) list \<Rightarrow> OsmBoundary \<Rightarrow> OsmBoundary" where
  "add_envelopes [] self = self"
| "add_envelopes ((minx, maxx, miny, maxy) # rest) self =
     add_envelopes rest (add_envelope minx maxx miny maxy self)"

text \<open>Every stored value list of an entity has exactly one value, a non-empty string.\<close>

definition singletons :: "OsmGeometry \<Rightarrow> bool" where
  "singletons e = (\<forall>(key, value_list) \<in> set (tags_of e). \<exists>v. value_list = [v] \<and> v \<noteq> [])"

section \<open>A process: a sequence of calls into the module\<close>

text \<open>
  The calls a collaborator can make on the allocator and on entities. A call on a
  reference outside the heap, and a \<^verbatim>\<open>load_id\<close> that raises, leave the state as it
  was; \<^verbatim>\<open>save_id\<close>, \<^verbatim>\<open>get_parents\<close>, \<^verbatim>\<open>get_member_role\<close> and \<^verbatim>\<open>to_xml\<close> only
  read.
\<close>

datatype operation =
    SetId int bool
  | LoadId "int option"
  | SaveId
  | NewNode pyfloat pyfloat "(string \<times> string option) list"
  | NewWay "(string \<times> string option) list"
  | NewRelation "(string \<times> string option) list"
  | AddParent ref ref
  | RemoveParent ref ref
  | GetParents ref
  | GetMemberRole ref ref
  | ToXml ref "(string \<times> string) list" nat

fun step :: "operation \<Rightarrow> world \<Rightarrow> world" where
  "step (SetId start_id is_positive) w = w\<lparr> osm_id := set_id start_id is_positive (osm_id w) \<rparr>"
| "step (LoadId parsed) w =
     (case load_id parsed (osm_id w) of Inl err \<Rightarrow> w | Inr ids \<Rightarrow> w\<lparr> osm_id := ids \<rparr>)"
| "step SaveId w = w"
| "step (NewNode x y tags) w = snd (OsmNode_init x y tags w)"
| "step (NewWay tags) w = snd (OsmWay_init tags w)"
| "step (NewRelation tags) w = snd (OsmRelation_init tags w)"
| "step (AddParent self parent) w =
     (if self < length (heap w)
      then w\<lparr> heap := (heap w)[self := addparent parent (heap w ! self)] \<rparr> else w)"
| "step (RemoveParent self parent) w =
     (if self < length (heap w)
      then w\<lparr> heap := (heap w)[self := removeparent parent (heap w ! self)] \<rparr> else w)"
| "step (GetParents self) w = w"
| "step (GetMemberRole self member) w = w"
| "step (ToXml self attributes significant_digits) w = w"

fun run :: "operation list \<Rightarrow> world \<Rightarrow> world" where
  "run [] w = w"
| "run (c # cs) w = run cs (step c w)"

text \<open>The calls that construct an entity, and the calls that assign the counter.\<close>

fun constructs :: "operation \<Rightarrow> bool" where
  "constructs (NewNode x y tags) = True"
| "constructs (NewWay tags) = True"
| "constructs (NewRelation tags) = True"
| "constructs c = False"

fun assigns_counter :: "operation \<Rightarrow> bool" where
  "assigns_counter (SetId start_id is_positive) = True"
| "assigns_counter (LoadId parsed) = True"
| "assigns_counter c = False"

section \<open>Properties of the allocator\<close>

text \<open>
  C3, as the code has it: \<^verbatim>\<open>set_id\<close> resets the counter to the given value; it sets
  the increment to \<open>+1\<close> when \<^verbatim>\<open>is_positive\<close> is true and otherwise leaves the
  increment as it was, which is \<open>-1\<close> from the state the module is loaded in.
\<close>

theorem set_id_counter_and_step:
  "element_id_counter (set_id v p s) = v \<and>
   element_id_counter_incr (set_id v p s) = (if p then 1 else element_id_counter_incr s) \<and>
   element_id_counter_incr (set_id v p OsmId_init) = (if p then 1 else - 1)"
  by (simp add: set_id_def OsmId_init_def Let_def)

text \<open>
  C3 as the specification words it fails: after a positive start, a second call with
  \<^verbatim>\<open>is_positive = False\<close> does not make the increment \<open>-1\<close>.
\<close>

theorem set_id_step_not_reset:
  "element_id_counter_incr (set_id 5 False (set_id 0 True OsmId_init)) = 1 \<and>
   element_id_counter_incr (set_id 5 False (set_id 0 True OsmId_init)) \<noteq> - 1"
  by (simp add: set_id_def OsmId_init_def Let_def)

section \<open>Properties of the bounding box\<close>

lemma float_lt_asym: "float_lt a b \<Longrightarrow> \<not> float_lt b a"
  by (cases a; cases b) auto

lemma float_lt_irrefl: "\<not> float_lt a a"
  by (cases a) auto

lemma float_lt_le_trans: "float_lt a b \<Longrightarrow> float_le b c \<Longrightarrow> float_le a c"
  by (cases a; cases b; cases c) auto

lemma float_le_lt_trans: "float_le a b \<Longrightarrow> float_lt b c \<Longrightarrow> float_le a c"
  by (cases a; cases b; cases c) auto

lemma py_min_keeps_below: "float_le a x \<Longrightarrow> float_le (py_min a b) x"
  by (auto simp: py_min_def intro: float_lt_le_trans)

lemma py_max_keeps_above: "float_le x a \<Longrightarrow> float_le x (py_max a b)"
  by (auto simp: py_max_def intro: float_le_lt_trans)

lemma py_min_least:
  "py_min a b \<in> {a, b} \<and> \<not> float_lt a (py_min a b) \<and> \<not> float_lt b (py_min a b)"
  by (auto simp: py_min_def float_lt_irrefl dest: float_lt_asym)

lemma py_max_greatest:
  "py_max a b \<in> {a, b} \<and> \<not> float_lt (py_max a b) a \<and> \<not> float_lt (py_max a b) b"
  by (auto simp: py_max_def float_lt_irrefl dest: float_lt_asym)

lemma add_envelope_valid: "is_valid (add_envelope minx maxx miny maxy b)"
  by (simp add: add_envelope_def)

lemma add_envelope_contains:
  "is_valid b \<Longrightarrow> contains b lon lat \<Longrightarrow> contains (add_envelope minx maxx miny maxy b) lon lat"
  by (simp add: add_envelope_def contains_def py_min_keeps_below py_max_keeps_above)

lemma add_envelopes_valid: "is_valid b \<Longrightarrow> is_valid (add_envelopes es b)"
  by (induction es b rule: add_envelopes.induct) (simp_all add: add_envelope_valid)

lemma add_envelopes_contains:
  "is_valid b \<Longrightarrow> contains b lon lat \<Longrightarrow> contains (add_envelopes es b) lon lat"
  by (induction es b rule: add_envelopes.induct)
     (simp_all add: add_envelope_valid add_envelope_contains)

text \<open>
  C5. On a box that is not valid yet (the first call) \<^verbatim>\<open>add_envelope\<close> adopts the
  envelope and sets \<^verbatim>\<open>is_valid\<close>. On a valid box it replaces each bound by the
  \<^verbatim>\<open>min\<close> of the minimums, respectively the \<^verbatim>\<open>max\<close> of the maximums: the new
  bound is one of the two and neither of the two lies strictly beyond it.
  \<^verbatim>\<open>add_envelope(1,2,3,4)\<close> followed by \<^verbatim>\<open>add_envelope(0,5,3,3)\<close> on a new box
  gives \<open>minlon = 0\<close>, \<open>maxlon = 5\<close>, \<open>minlat = 3\<close>, \<open>maxlat = 4\<close>. Once the box is valid,
  no sequence of further calls makes it invalid or takes a point out of it.
\<close>

theorem add_envelope_adopts_then_unions:
  "(\<not> is_valid b \<longrightarrow>
      add_envelope minx maxx miny maxy b =
        b\<lparr> is_valid := True, minlon := minx, maxlon := maxx, minlat := miny, maxlat := maxy \<rparr>) \<and>
   (is_valid b \<longrightarrow>
      add_envelope minx maxx miny maxy b =
        b\<lparr> minlon := py_min (minlon b) minx, maxlon := py_max (maxlon b) maxx,
           minlat := py_min (minlat b) miny, maxlat := py_max (maxlat b) maxy \<rparr>) \<and>
   py_min old new \<in> {old, new} \<and> \<not> float_lt old (py_min old new) \<and>
   \<not> float_lt new (py_min old new) \<and>
   py_max old new \<in> {old, new} \<and> \<not> float_lt (py_max old new) old \<and>
   \<not> float_lt (py_max old new) new \<and>
   add_envelope (Finite False 0 0) (Finite False 5 0) (Finite False 3 0) (Finite False 3 0)
     (add_envelope (Finite False 1 0) (Finite False 2 0) (Finite False 3 0) (Finite False 4 0)
        OsmBoundary_init) =
     \<lparr> is_valid = True, minlon = Finite False 0 0, maxlon = Finite False 5 0,
       minlat = Finite False 3 0, maxlat = Finite False 4 0 \<rparr> \<and>
   is_valid (add_envelopes es (add_envelope minx maxx miny maxy b)) \<and>
   (is_valid b \<longrightarrow> is_valid (add_envelopes es b)) \<and>
   (is_valid b \<longrightarrow> contains b lon lat \<longrightarrow> contains (add_envelopes es b) lon lat)"
proof -
  have first: "\<not> is_valid b \<longrightarrow>
      add_envelope minx maxx miny maxy b =
        b\<lparr> is_valid := True, minlon := minx, maxlon := maxx, minlat := miny, maxlat := maxy \<rparr>"
    by (simp add: add_envelope_def)
  have later: "is_valid b \<longrightarrow>
      add_envelope minx maxx miny maxy b =
        b\<lparr> minlon := py_min (minlon b) minx, maxlon := py_max (maxlon b) maxx,
           minlat := py_min (minlat b) miny, maxlat := py_max (maxlat b) maxy \<rparr>"
    by (simp add: add_envelope_def)
  have example:
    "add_envelope (Finite False 0 0) (Finite False 5 0) (Finite False 3 0) (Finite False 3 0)
       (add_envelope (Finite False 1 0) (Finite False 2 0) (Finite False 3 0) (Finite False 4 0)
          OsmBoundary_init) =
     \<lparr> is_valid = True, minlon = Finite False 0 0, maxlon = Finite False 5 0,
       minlat = Finite False 3 0, maxlat = Finite False 4 0 \<rparr>"
    by (simp add: add_envelope_def OsmBoundary_init_def py_min_def py_max_def finite_val_def)
  have stays: "is_valid (add_envelopes es (add_envelope minx maxx miny maxy b))"
    by (rule add_envelopes_valid) (rule add_envelope_valid)
  from first later example stays py_min_least[of old new] py_max_greatest[of old new]
    add_envelopes_valid[of b es] add_envelopes_contains[of b lon lat es]
  show ?thesis by blast
qed

theorem add_envelope_adopts_then_unions_witness:
  "\<not> is_valid OsmBoundary_init \<and>
   add_envelope (Finite False 1 0) (Finite False 2 0) (Finite False 3 0) (Finite False 4 0)
       OsmBoundary_init =
     OsmBoundary_init\<lparr> is_valid := True, minlon := Finite False 1 0, maxlon := Finite False 2 0,
       minlat := Finite False 3 0, maxlat := Finite False 4 0 \<rparr> \<and>
   is_valid \<lparr> is_valid = True, minlon = Finite False 1 0, maxlon = Finite False 2 0,
       minlat = Finite False 3 0, maxlat = Finite False 4 0 \<rparr> \<and>
   contains \<lparr> is_valid = True, minlon = Finite False 1 0, maxlon = Finite False 2 0,
       minlat = Finite False 3 0, maxlat = Finite False 4 0 \<rparr>
     (Finite False 3 (- 1)) (Finite False 7 (- 1)) \<and>
   contains
     (add_envelopes [(Finite False 0 0, Finite False 5 0, Finite False 3 0, Finite False 3 0)]
        \<lparr> is_valid = True, minlon = Finite False 1 0, maxlon = Finite False 2 0,
          minlat = Finite False 3 0, maxlat = Finite False 4 0 \<rparr>)
     (Finite False 3 (- 1)) (Finite False 7 (- 1))"
proof -
  let ?b = "\<lparr> is_valid = True, minlon = Finite False 1 0, maxlon = Finite False 2 0,
       minlat = Finite False 3 0, maxlat = Finite False 4 0 \<rparr>"
  have n: "\<not> is_valid OsmBoundary_init"
    by (simp add: OsmBoundary_init_def)
  have v: "is_valid ?b"
    by simp
  have c: "contains ?b (Finite False 3 (- 1)) (Finite False 7 (- 1))"
    by (simp add: contains_def finite_val_def)
  from n v c
    add_envelope_adopts_then_unions[of ?b "Finite False 0 0" "Finite False 5 0"
      "Finite False 3 0" "Finite False 3 0" "Finite False 0 0" "Finite False 0 0"
      "[(Finite False 0 0, Finite False 5 0, Finite False 3 0, Finite False 3 0)]"
      "Finite False 3 (- 1)" "Finite False 7 (- 1)"]
    add_envelope_adopts_then_unions[of OsmBoundary_init "Finite False 1 0" "Finite False 2 0"
      "Finite False 3 0" "Finite False 4 0" "Finite False 0 0" "Finite False 0 0" "[]"
      "Finite False 3 (- 1)" "Finite False 7 (- 1)"]
  show ?thesis by blast
qed

section \<open>Properties of tags and members\<close>

lemma dict_set_absent: "k \<notin> fst ` set d \<Longrightarrow> dict_set d k v = d @ [(k, v)]"
  by (induction d) auto

lemma append_non_empty_tags_distinct:
  "distinct (map fst tags) \<Longrightarrow> fst ` set self_tags \<inter> fst ` set tags = {} \<Longrightarrow>
   append_non_empty_tags self_tags tags =
     self_tags @ map (\<lambda>(k, v). (k, [the v])) (filter (\<lambda>(k, v). truthy v) tags)"
proof (induction tags arbitrary: self_tags)
  case Nil
  then show ?case by simp
next
  case (Cons kv tags)
  obtain k v where kv: "kv = (k, v)" by (cases kv)
  show ?case
  proof (cases "truthy v")
    case True
    have "k \<notin> fst ` set self_tags" using Cons.prems kv by auto
    then have ds: "dict_set self_tags k [the v] = self_tags @ [(k, [the v])]"
      by (rule dict_set_absent)
    have "fst ` set (self_tags @ [(k, [the v])]) \<inter> fst ` set tags = {}"
      using Cons.prems kv by auto
    with Cons.IH[of "self_tags @ [(k, [the v])]"] Cons.prems kv True ds show ?thesis by simp
  next
    case False
    have "fst ` set self_tags \<inter> fst ` set tags = {}" using Cons.prems kv by auto
    with Cons.IH[of self_tags] Cons.prems kv False show ?thesis by simp
  qed
qed

lemma new_node_tags:
  "tags_of (heap (snd (OsmNode_init x y tags w)) ! fst (OsmNode_init x y tags w)) =
     append_non_empty_tags [] tags"
  by (simp add: OsmNode_init_def Let_def split: prod.split)

lemma new_way_tags:
  "tags_of (heap (snd (OsmWay_init tags w)) ! fst (OsmWay_init tags w)) =
     append_non_empty_tags [] tags"
  by (simp add: OsmWay_init_def Let_def split: prod.split)

lemma new_relation_tags:
  "tags_of (heap (snd (OsmRelation_init tags w)) ! fst (OsmRelation_init tags w)) =
     append_non_empty_tags [] tags"
  by (simp add: OsmRelation_init_def Let_def split: prod.split)

text \<open>
  C6. The tags handed to a constructor are a dictionary, so their keys are distinct.
  The tags stored in the new entity, whatever its class, are exactly the pairs with a
  truthy value, in their order, each key mapped to the one-element list of its value.
\<close>

theorem constructors_store_truthy_tags:
  assumes "distinct (map fst tags)"
  shows "append_non_empty_tags [] tags =
           map (\<lambda>(k, v). (k, [the v])) (filter (\<lambda>(k, v). truthy v) tags) \<and>
         tags_of (heap (snd (OsmNode_init x y tags w)) ! fst (OsmNode_init x y tags w)) =
           map (\<lambda>(k, v). (k, [the v])) (filter (\<lambda>(k, v). truthy v) tags) \<and>
         tags_of (heap (snd (OsmWay_init tags w)) ! fst (OsmWay_init tags w)) =
           map (\<lambda>(k, v). (k, [the v])) (filter (\<lambda>(k, v). truthy v) tags) \<and>
         tags_of (heap (snd (OsmRelation_init tags w)) ! fst (OsmRelation_init tags w)) =
           map (\<lambda>(k, v). (k, [the v])) (filter (\<lambda>(k, v). truthy v) tags)"
proof -
  have "append_non_empty_tags [] tags =
          map (\<lambda>(k, v). (k, [the v])) (filter (\<lambda>(k, v). truthy v) tags)"
    using append_non_empty_tags_distinct[OF assms, of "[]"] by simp
  then show ?thesis
    by (simp only: new_node_tags new_way_tags new_relation_tags)
qed

theorem constructors_store_truthy_tags_witness:
  "distinct (map fst [(''name'', Some ''Main St''), (''note'', Some ''''), (''ref'', None)]) \<and>
   append_non_empty_tags []
     [(''name'', Some ''Main St''), (''note'', Some ''''), (''ref'', None)] =
     [(''name'', [''Main St''])] \<and>
   tags_of (heap (snd (OsmNode_init NaN NaN
       [(''name'', Some ''Main St''), (''note'', Some ''''), (''ref'', None)] world_init)) !
     fst (OsmNode_init NaN NaN
       [(''name'', Some ''Main St''), (''note'', Some ''''), (''ref'', None)] world_init)) =
     [(''name'', [''Main St''])] \<and>
   tags_of (heap (snd (OsmWay_init
       [(''name'', Some ''Main St''), (''note'', Some ''''), (''ref'', None)] world_init)) !
     fst (OsmWay_init
       [(''name'', Some ''Main St''), (''note'', Some ''''), (''ref'', None)] world_init)) =
     [(''name'', [''Main St''])] \<and>
   tags_of (heap (snd (OsmRelation_init
       [(''name'', Some ''Main St''), (''note'', Some ''''), (''ref'', None)] world_init)) !
     fst (OsmRelation_init
       [(''name'', Some ''Main St''), (''note'', Some ''''), (''ref'', None)] world_init)) =
     [(''name'', [''Main St''])]"
proof -
  have d: "distinct (map fst [(''name'', Some ''Main St''), (''note'', Some ''''), (''ref'', None)])"
    by simp
  from d constructors_store_truthy_tags[OF d, of NaN NaN world_init]
  show ?thesis by simp
qed

text \<open>
  C8. \<^verbatim>\<open>get_member_role\<close> returns the role of the first pair whose entity is the
  given one, and the empty string when there is no such pair; a first role that is empty
  is returned as the empty string. For members \<open>[(X, "outer"), (Y, "inner")]\<close> the role
  of \<open>X\<close> is \<open>"outer"\<close> and the role of an object that is neither \<open>X\<close> nor \<open>Y\<close> is \<open>""\<close>.
\<close>

theorem get_member_role_first_match:
  "get_member_role members member =
     (case find (\<lambda>m. fst m = member) members of None \<Rightarrow> '''' | Some m \<Rightarrow> snd m) \<and>
   get_member_role [(X, ''outer''), (Y, ''inner'')] X = ''outer'' \<and>
   get_member_role [(X, ''outer''), (Y, ''inner'')] Z =
     (if Z = X then ''outer'' else if Z = Y then ''inner'' else '''')"
proof -
  have "get_member_role members member =
     (case find (\<lambda>m. fst m = member) members of None \<Rightarrow> '''' | Some m \<Rightarrow> snd m)"
  proof (induction members)
    case Nil
    show ?case by (simp add: get_member_role_def)
  next
    case (Cons m ms)
    show ?case
    proof (cases "fst m = member")
      case True
      then show ?thesis by (auto simp: get_member_role_def Let_def)
    next
      case False
      with Cons show ?thesis by (simp add: get_member_role_def Let_def)
    qed
  qed
  then show ?thesis by (simp add: get_member_role_def Let_def)
qed

theorem get_member_role_first_match_witness:
  "get_member_role [(0, ''outer''), (1, ''inner'')] 0 = ''outer'' \<and>
   get_member_role [(0, ''outer''), (1, ''inner'')] 2 = '''' \<and>
   get_member_role [(0, ''''), (0, ''outer'')] 0 = ''''"
  using get_member_role_first_match[of "[(0, ''outer''), (1, ''inner'')]" 0 0 1 2]
    get_member_role_first_match[of "[(0, ''''), (0, ''outer'')]" 0 0 1 2]
  by simp

section \<open>Ids of constructed entities\<close>

lemma id_of_set_parents [simp]: "id_of (set_parents ps e) = id_of e"
  by (cases e) auto

lemma tags_of_set_parents [simp]: "tags_of (set_parents ps e) = tags_of e"
  by (cases e) auto

lemma map_id_of_update_parents:
  "r < length h \<Longrightarrow> map id_of (h[r := set_parents ps (h ! r)]) = map id_of h"
  by (simp add: map_update list_update_same_conv)

lemma step_constructs:
  "constructs c \<Longrightarrow>
   map id_of (heap (step c w)) =
     map id_of (heap w) @
       [element_id_counter (osm_id w) + element_id_counter_incr (osm_id w)] \<and>
   element_id_counter (osm_id (step c w)) =
     element_id_counter (osm_id w) + element_id_counter_incr (osm_id w) \<and>
   element_id_counter_incr (osm_id (step c w)) = element_id_counter_incr (osm_id w)"
  by (cases c)
     (simp_all add: OsmNode_init_def OsmWay_init_def OsmRelation_init_def get_new_id_def Let_def)

lemma step_reads:
  "\<not> constructs c \<Longrightarrow> \<not> assigns_counter c \<Longrightarrow>
   map id_of (heap (step c w)) = map id_of (heap w) \<and> osm_id (step c w) = osm_id w"
  by (cases c) (simp_all add: addparent_def removeparent_def map_id_of_update_parents)

lemma run_ids:
  "list_all (\<lambda>c. \<not> assigns_counter c) ops \<Longrightarrow>
   map id_of (heap (run ops w)) =
     map id_of (heap w) @
       map (\<lambda>k. element_id_counter (osm_id w) + (int k + 1) * element_id_counter_incr (osm_id w))
         [0..<length (filter constructs ops)]"
proof (induction ops arbitrary: w)
  case Nil
  show ?case by simp
next
  case (Cons c ops)
  then have rest: "list_all (\<lambda>c. \<not> assigns_counter c) ops" and c: "\<not> assigns_counter c"
    by simp_all
  show ?case
  proof (cases "constructs c")
    case True
    from step_constructs[OF True, of w] Cons.IH[OF rest, of "step c w"] True
    show ?thesis
      by (simp add: map_upt_Suc algebra_simps del: upt_Suc)
  next
    case False
    from step_reads[OF False c, of w] Cons.IH[OF rest, of "step c w"] False
    show ?thesis by simp
  qed
qed

text \<open>
  C2. A process that starts from an empty heap with counter \<open>S\<close> and step \<open>d\<close>, and
  whose calls do not assign the counter (no \<^verbatim>\<open>set_id\<close>, no \<^verbatim>\<open>load_id\<close>), gives the
  \<open>k\<close>-th entity it constructs, of whatever class, the id \<open>S + k * d\<close>: \<open>S + k\<close> for step
  \<open>+1\<close> and \<open>S - k\<close> for step \<open>-1\<close>. So no two entities get the same id. A
  \<^verbatim>\<open>set_id(S, is_positive)\<close> as the first call of the process gives such a start.
\<close>

theorem kth_constructed_id:
  assumes "list_all (\<lambda>c. \<not> assigns_counter c) ops"
    and "w = run ops \<lparr> osm_id = \<lparr> element_id_counter = S, element_id_counter_incr = d \<rparr>,
                       heap = [] \<rparr>"
    and "1 \<le> k" and "k \<le> length (filter constructs ops)"
  shows "length (heap w) = length (filter constructs ops) \<and>
         id_of (heap w ! (k - 1)) = S + int k * d \<and>
         (d = 1 \<longrightarrow> id_of (heap w ! (k - 1)) = S + int k) \<and>
         (d = - 1 \<longrightarrow> id_of (heap w ! (k - 1)) = S - int k) \<and>
         (d = 1 \<or> d = - 1 \<longrightarrow> distinct (map id_of (heap w))) \<and>
         step (SetId S is_positive) world_init =
           \<lparr> osm_id = \<lparr> element_id_counter = S,
                        element_id_counter_incr = (if is_positive then 1 else - 1) \<rparr>,
             heap = [] \<rparr>"
proof -
  let ?n = "length (filter constructs ops)"
  have ids: "map id_of (heap w) = map (\<lambda>k. S + (int k + 1) * d) [0..<?n]"
    using run_ids[OF assms(1), of "\<lparr> osm_id = \<lparr> element_id_counter = S,
      element_id_counter_incr = d \<rparr>, heap = [] \<rparr>"] assms(2) by simp
  from ids have len: "length (heap w) = ?n"
    by (metis length_map length_upt minus_nat.diff_0)
  have km: "k - 1 < ?n" using assms(3,4) by arith
  then have "map id_of (heap w) ! (k - 1) = S + (int (k - 1) + 1) * d"
    using ids by simp
  moreover have "map id_of (heap w) ! (k - 1) = id_of (heap w ! (k - 1))"
    using km len by simp
  moreover have "int (k - 1) + 1 = int k" using assms(3) by simp
  ultimately have kth: "id_of (heap w ! (k - 1)) = S + int k * d" by simp
  have dist: "d = 1 \<or> d = - 1 \<longrightarrow> distinct (map id_of (heap w))"
  proof
    assume "d = 1 \<or> d = - 1"
    then have "inj_on (\<lambda>k. S + (int k + 1) * d) (set [0..<?n])"
      by (auto simp: inj_on_def)
    then show "distinct (map id_of (heap w))"
      unfolding ids by (simp add: distinct_map)
  qed
  have start: "step (SetId S is_positive) world_init =
           \<lparr> osm_id = \<lparr> element_id_counter = S,
                        element_id_counter_incr = (if is_positive then 1 else - 1) \<rparr>,
             heap = [] \<rparr>"
    by (simp add: world_init_def OsmId_init_def set_id_def Let_def)
  from len kth dist start show ?thesis by simp
qed

theorem kth_constructed_id_witness:
  "list_all (\<lambda>c. \<not> assigns_counter c)
     [NewNode NaN NaN [], AddParent 0 0, NewWay [], SaveId, NewRelation []] \<and>
   (1::nat) \<le> 3 \<and>
   3 \<le> length (filter constructs
     [NewNode NaN NaN [], AddParent 0 0, NewWay [], SaveId, NewRelation []]) \<and>
   id_of (heap (run [NewNode NaN NaN [], AddParent 0 0, NewWay [], SaveId, NewRelation []]
     \<lparr> osm_id = \<lparr> element_id_counter = 10, element_id_counter_incr = - 1 \<rparr>, heap = [] \<rparr>)
       ! (3 - 1)) = 7 \<and>
   distinct (map id_of (heap (run
     [NewNode NaN NaN [], AddParent 0 0, NewWay [], SaveId, NewRelation []]
     \<lparr> osm_id = \<lparr> element_id_counter = 10, element_id_counter_incr = - 1 \<rparr>, heap = [] \<rparr>)))"
proof -
  let ?ops = "[NewNode NaN NaN [], AddParent 0 0, NewWay [], SaveId, NewRelation []]"
  have a: "list_all (\<lambda>c. \<not> assigns_counter c) ?ops" by simp
  have b: "(1::nat) \<le> 3" by simp
  have c: "3 \<le> length (filter constructs ?ops)" by simp
  from a b c kth_constructed_id[OF a refl b c, of 10 "- 1" False]
  show ?thesis by simp
qed

text \<open>
  The hypothesis on the calls is needed: a \<^verbatim>\<open>set_id\<close> between two constructions
  starts the walk again, and the second entity gets the id of the first.
\<close>

lemma ids_repeat_after_set_id:
  "map id_of (heap (run [NewNode NaN NaN [], SetId 0 False, NewWay []] world_init)) = [- 1, - 1]"
  by (simp add: world_init_def OsmId_init_def OsmNode_init_def OsmWay_init_def get_new_id_def
      set_id_def Let_def)

section \<open>Stored value lists\<close>

lemma dict_set_subset: "set (dict_set d k v) \<subseteq> insert (k, v) (set d)"
  by (induction d) (auto split: if_splits)

lemma append_non_empty_tags_entries:
  "(key, value_list) \<in> set (append_non_empty_tags self_tags tags) \<Longrightarrow>
   (key, value_list) \<in> set self_tags \<or>
   (\<exists>v. value_list = [v] \<and> v \<noteq> [] \<and> (key, Some v) \<in> set tags)"
proof (induction self_tags tags rule: append_non_empty_tags.induct)
  case (1 self_tags)
  then show ?case by simp
next
  case (2 self_tags k val rest)
  show ?case
  proof (cases "truthy val")
    case True
    then obtain v where v: "val = Some v" "v \<noteq> []" by (cases val) auto
    from 2 True have "(key, value_list) \<in> set (dict_set self_tags k [the val]) \<or>
      (\<exists>v. value_list = [v] \<and> v \<noteq> [] \<and> (key, Some v) \<in> set rest)" by simp
    with dict_set_subset[of self_tags k "[the val]"] v show ?thesis by auto
  next
    case False
    with 2 show ?thesis by auto
  qed
qed

lemma singletons_new: "tags_of e = append_non_empty_tags [] tags \<Longrightarrow> singletons e"
  unfolding singletons_def using append_non_empty_tags_entries[of _ _ "[]" tags] by fastforce

lemma singletons_set_parents: "singletons (set_parents ps e) = singletons e"
  by (simp add: singletons_def)

lemma step_singletons:
  "\<forall>e \<in> set (heap w). singletons e \<Longrightarrow> \<forall>e \<in> set (heap (step c w)). singletons e"
proof (cases c)
  case (NewNode x y tags)
  assume "\<forall>e \<in> set (heap w). singletons e"
  then show ?thesis using NewNode
    by (auto simp: OsmNode_init_def Let_def split: prod.split intro!: singletons_new)
next
  case (NewWay tags)
  assume "\<forall>e \<in> set (heap w). singletons e"
  then show ?thesis using NewWay
    by (auto simp: OsmWay_init_def Let_def split: prod.split intro!: singletons_new)
next
  case (NewRelation tags)
  assume "\<forall>e \<in> set (heap w). singletons e"
  then show ?thesis using NewRelation
    by (auto simp: OsmRelation_init_def Let_def split: prod.split intro!: singletons_new)
next
  case (AddParent r p)
  assume "\<forall>e \<in> set (heap w). singletons e"
  then show ?thesis using AddParent
    by (auto simp: addparent_def singletons_set_parents dest!: set_update_subset_insert[THEN subsetD])
next
  case (RemoveParent r p)
  assume "\<forall>e \<in> set (heap w). singletons e"
  then show ?thesis using RemoveParent
    by (auto simp: removeparent_def singletons_set_parents dest!: set_update_subset_insert[THEN subsetD])
qed (auto simp: load_id_def split: option.split)

lemma run_singletons:
  "\<forall>e \<in> set (heap w). singletons e \<Longrightarrow> \<forall>e \<in> set (heap (run ops w)). singletons e"
proof (induction ops arbitrary: w)
  case Nil
  then show ?case by simp
next
  case (Cons c ops)
  from Cons.prems have "\<forall>e \<in> set (heap (step c w)). singletons e"
    by (rule step_singletons)
  then have "\<forall>e \<in> set (heap (run ops (step c w))). singletons e"
    by (rule Cons.IH)
  then show ?case by simp
qed

lemma step_frame:
  "r < length (heap w) \<Longrightarrow>
   r < length (heap (step c w)) \<and> tags_of (heap (step c w) ! r) = tags_of (heap w ! r)"
  by (cases c)
     (auto simp: OsmNode_init_def OsmWay_init_def OsmRelation_init_def Let_def nth_append
        addparent_def removeparent_def nth_list_update load_id_def
        split: prod.split option.split)

text \<open>
  C10. No call into the module changes the tags of an entity that exists, and in every
  state a process reaches from the start, every stored tag of every entity maps its key
  to a list of exactly one value. So the comma-join in the \<^verbatim>\<open>to_xml\<close> methods
  returns that one value and never concatenates.
\<close>

theorem stored_value_lists_stay_singletons:
  "(r < length (heap w) \<longrightarrow>
      r < length (heap (step c w)) \<and>
      tags_of (heap (step c w) ! r) = tags_of (heap w ! r)) \<and>
   (e \<in> set (heap (run ops world_init)) \<longrightarrow> (key, value_list) \<in> set (tags_of e) \<longrightarrow>
      (\<exists>v. value_list = [v] \<and> v \<noteq> [] \<and> py_join '','' value_list = v))"
proof -
  have "\<forall>e \<in> set (heap world_init). singletons e"
    by (simp add: world_init_def)
  then have "\<forall>e \<in> set (heap (run ops world_init)). singletons e"
    by (rule run_singletons)
  then have "e \<in> set (heap (run ops world_init)) \<longrightarrow> (key, value_list) \<in> set (tags_of e) \<longrightarrow>
      (\<exists>v. value_list = [v] \<and> v \<noteq> [] \<and> py_join '','' value_list = v)"
    unfolding singletons_def by fastforce
  with step_frame[of r w c] show ?thesis by blast
qed

theorem stored_value_lists_stay_singletons_witness:
  "0 < length (heap (run [NewNode NaN NaN [(''name'', Some ''Main St''), (''ref'', None)]]
       world_init)) \<and>
   tags_of (heap (step (AddParent 0 0)
       (run [NewNode NaN NaN [(''name'', Some ''Main St''), (''ref'', None)]] world_init)) ! 0) =
     [(''name'', [''Main St''])] \<and>
   OsmNode (- 1) [(''name'', [''Main St''])] {0} NaN NaN \<in>
     set (heap (run [NewNode NaN NaN [(''name'', Some ''Main St''), (''ref'', None)],
                     AddParent 0 0] world_init)) \<and>
   (''name'', [''Main St'']) \<in>
     set (tags_of (OsmNode (- 1) [(''name'', [''Main St''])] {0} NaN NaN)) \<and>
   py_join '','' [''Main St''] = ''Main St''"
proof -
  let ?w = "run [NewNode NaN NaN [(''name'', Some ''Main St''), (''ref'', None)]] world_init"
  let ?e = "OsmNode (- 1) [(''name'', [''Main St''])] {0} NaN NaN"
  note defs = world_init_def OsmId_init_def OsmNode_init_def get_new_id_def Let_def
    addparent_def
  have a: "0 < length (heap ?w)"
    by (simp add: defs)
  have b: "?e \<in> set (heap (run [NewNode NaN NaN [(''name'', Some ''Main St''), (''ref'', None)],
                     AddParent 0 0] world_init))"
    by (simp add: defs)
  have c: "(''name'', [''Main St'']) \<in> set (tags_of ?e)"
    by simp
  from a b c
    stored_value_lists_stay_singletons[of 0 ?w "AddParent 0 0" ?e
      "[NewNode NaN NaN [(''name'', Some ''Main St''), (''ref'', None)], AddParent 0 0]"
      "''name''" "[''Main St'']"]
  show ?thesis by (simp add: defs)
qed

section \<open>Properties of serialization\<close>

subsection \<open>What the loops and the methods build\<close>

lemma append_tags_result:
  "append_tags lx tg (Element t a cs) =
     (if list_all (\<lambda>(key, value_list).
            accepts lx ''tag'' [(''k'', key), (''v'', py_join '','' value_list)]) tg
      then Inr (Element t a (cs @
            map (\<lambda>(key, value_list).
                   Element ''tag'' [(''k'', key), (''v'', py_join '','' value_list)] []) tg))
      else Inl ValueError)"
  by (induction tg arbitrary: cs) (auto simp: etree_Element_def)

lemma append_nds_Inr:
  "append_nds lx h nodes (Element t a cs) = Inr xmlobject \<longleftrightarrow>
     list_all (\<lambda>node. node < length h \<and>
        accepts lx ''nd'' [(''ref'', str_int (id_of (h ! node)))]) nodes \<and>
     xmlobject = Element t a (cs @
        map (\<lambda>node. Element ''nd'' [(''ref'', str_int (id_of (h ! node)))] []) nodes)"
  by (induction nodes arbitrary: cs) (auto simp: etree_Element_def split: if_splits)

lemma append_nds_Inl:
  "append_nds lx h nodes (Element t a cs) = Inl err \<Longrightarrow>
   \<not> list_all (\<lambda>node. node < length h \<and>
        accepts lx ''nd'' [(''ref'', str_int (id_of (h ! node)))]) nodes"
  using append_nds_Inr[of lx h nodes t a cs] by auto

lemma append_members_Inr:
  "append_members lx h members (Element t a cs) = Inr xmlobject \<longleftrightarrow>
     list_all (\<lambda>(member, role). member < length h \<and>
        accepts lx ''member''
          [(''type'', member_type (h ! member)),
           (''ref'', str_int (id_of (h ! member))),
           (''role'', role)]) members \<and>
     xmlobject = Element t a (cs @
        map (\<lambda>(member, role).
               Element ''member''
                 [(''type'', member_type (h ! member)),
                  (''ref'', str_int (id_of (h ! member))),
                  (''role'', role)] []) members)"
  by (induction members arbitrary: cs) (auto simp: etree_Element_def split: if_splits)

lemma append_members_Inl:
  "append_members lx h members (Element t a cs) = Inl err \<Longrightarrow>
   \<not> list_all (\<lambda>(member, role). member < length h \<and>
        accepts lx ''member''
          [(''type'', member_type (h ! member)),
           (''ref'', str_int (id_of (h ! member))),
           (''role'', role)]) members"
  using append_members_Inr[of lx h members t a cs] by auto

lemma xmlobject_of_node:
  "xmlobject_of lx h attributes significant_digits (OsmNode i tg ps x y) = Inr xmlobject \<longleftrightarrow>
     accepts lx ''node''
       (dict_update
          [(''visible'', ''true''), (''id'', str_int i),
           (''lat'', py_strip ''0'' (format_f significant_digits y)),
           (''lon'', py_strip ''0'' (format_f significant_digits x))] attributes) \<and>
     list_all (\<lambda>(key, value_list).
        accepts lx ''tag'' [(''k'', key), (''v'', py_join '','' value_list)]) tg \<and>
     xmlobject =
       Element ''node''
         (dict_update
            [(''visible'', ''true''), (''id'', str_int i),
             (''lat'', py_strip ''0'' (format_f significant_digits y)),
             (''lon'', py_strip ''0'' (format_f significant_digits x))] attributes)
         (map (\<lambda>(key, value_list).
                 Element ''tag'' [(''k'', key), (''v'', py_join '','' value_list)] []) tg)"
  by (auto simp: Let_def etree_Element_def append_tags_result)

lemma xmlobject_of_way:
  "xmlobject_of lx h attributes significant_digits (OsmWay i tg ps nodes) = Inr xmlobject \<longleftrightarrow>
     accepts lx ''way''
       (dict_update [(''visible'', ''true''), (''id'', str_int i)] attributes) \<and>
     list_all (\<lambda>node. node < length h \<and>
        accepts lx ''nd'' [(''ref'', str_int (id_of (h ! node)))]) nodes \<and>
     list_all (\<lambda>(key, value_list).
        accepts lx ''tag'' [(''k'', key), (''v'', py_join '','' value_list)]) tg \<and>
     xmlobject =
       Element ''way''
         (dict_update [(''visible'', ''true''), (''id'', str_int i)] attributes)
         (map (\<lambda>node. Element ''nd'' [(''ref'', str_int (id_of (h ! node)))] []) nodes @
          map (\<lambda>(key, value_list).
                 Element ''tag'' [(''k'', key), (''v'', py_join '','' value_list)] []) tg)"
  by (auto simp: Let_def etree_Element_def append_tags_result append_nds_Inr
      split: sum.splits dest: append_nds_Inl)

lemma xmlobject_of_relation:
  "xmlobject_of lx h attributes significant_digits (OsmRelation i tg ps members) = Inr xmlobject
   \<longleftrightarrow>
     accepts lx ''relation''
       (dict_update [(''visible'', ''true''), (''id'', str_int i)] attributes) \<and>
     list_all (\<lambda>(member, role). member < length h \<and>
        accepts lx ''member''
          [(''type'', member_type (h ! member)),
           (''ref'', str_int (id_of (h ! member))),
           (''role'', role)]) members \<and>
     accepts lx ''tag'' [(''k'', ''type''), (''v'', ''multipolygon'')] \<and>
     list_all (\<lambda>(key, value_list).
        accepts lx ''tag'' [(''k'', key), (''v'', py_join '','' value_list)]) tg \<and>
     xmlobject =
       Element ''relation''
         (dict_update [(''visible'', ''true''), (''id'', str_int i)] attributes)
         (map (\<lambda>(member, role).
                 Element ''member''
                   [(''type'', member_type (h ! member)),
                    (''ref'', str_int (id_of (h ! member))),
                    (''role'', role)] []) members @
          [Element ''tag'' [(''k'', ''type''), (''v'', ''multipolygon'')] []] @
          map (\<lambda>(key, value_list).
                 Element ''tag'' [(''k'', key), (''v'', py_join '','' value_list)] []) tg)"
  by (auto simp: Let_def etree_Element_def append_tags_result append_members_Inr
      split: sum.splits dest: append_members_Inl)

lemma map_of_dict_set: "map_of (dict_set d k v) = (map_of d)(k \<mapsto> v)"
  by (induction d) (auto simp: fun_eq_iff)

lemma keys_dict_set: "fst ` set (dict_set d k v) = insert k (fst ` set d)"
  by (simp add: dom_map_of_conv_image_fst[symmetric] map_of_dict_set)

lemma distinct_dict_set: "distinct (map fst d) \<Longrightarrow> distinct (map fst (dict_set d k v))"
  by (induction d) (auto simp: keys_dict_set)

lemma distinct_dict_update:
  "distinct (map fst d) \<Longrightarrow> distinct (map fst (dict_update d other))"
  by (induction d other rule: dict_update.induct) (auto simp: distinct_dict_set)

lemma map_of_dict_update_other:
  "k \<notin> fst ` set other \<Longrightarrow> map_of (dict_update d other) k = map_of d k"
  by (induction d other rule: dict_update.induct) (auto simp: map_of_dict_set)

lemma map_of_dict_update_wins:
  "distinct (map fst other) \<Longrightarrow> (k, v) \<in> set other \<Longrightarrow>
   map_of (dict_update d other) k = Some v"
proof (induction d other rule: dict_update.induct)
  case (1 d)
  then show ?case by simp
next
  case (2 d k' v' other)
  show ?case
  proof (cases "(k, v) = (k', v')")
    case True
    with 2 have "k \<notin> fst ` set other" by force
    then have "map_of (dict_update (dict_set d k' v') other) k = map_of (dict_set d k' v') k"
      by (rule map_of_dict_update_other)
    with True show ?thesis by (simp add: map_of_dict_set)
  next
    case False
    with 2 show ?thesis by auto
  qed
qed

subsection \<open>Relations\<close>

text \<open>
  C7. \<^verbatim>\<open>OsmRelation.to_xml\<close> returns markup exactly when every member is an entity
  and lxml accepts every element, and then the \<^verbatim>\<open>relation\<close> element has these
  children, in this order: one \<^verbatim>\<open>member\<close> per pair of \<^verbatim>\<open>self.members\<close>, in
  sequence order, with the attributes \<^verbatim>\<open>type\<close> (\<^verbatim>\<open>node\<close> for an OsmNode,
  \<^verbatim>\<open>way\<close> for an OsmWay, \<^verbatim>\<open>relation\<close> for an OsmRelation), \<^verbatim>\<open>ref\<close> (the
  member's id) and \<^verbatim>\<open>role\<close>; then one \<^verbatim>\<open>tag\<close> with \<^verbatim>\<open>k="type"\<close> and
  \<^verbatim>\<open>v="multipolygon"\<close>; then one \<^verbatim>\<open>tag\<close> per stored tag of the relation.
\<close>

theorem relation_children_in_order:
  "(xmlobject_of lx h attributes significant_digits (OsmRelation i tg ps members) = Inr xmlobject
    \<longleftrightarrow>
      accepts lx ''relation''
        (dict_update [(''visible'', ''true''), (''id'', str_int i)] attributes) \<and>
      list_all (\<lambda>(member, role). member < length h \<and>
         accepts lx ''member''
           [(''type'', member_type (h ! member)),
            (''ref'', str_int (id_of (h ! member))),
            (''role'', role)]) members \<and>
      accepts lx ''tag'' [(''k'', ''type''), (''v'', ''multipolygon'')] \<and>
      list_all (\<lambda>(key, value_list).
         accepts lx ''tag'' [(''k'', key), (''v'', py_join '','' value_list)]) tg \<and>
      xmlobject =
        Element ''relation''
          (dict_update [(''visible'', ''true''), (''id'', str_int i)] attributes)
          (map (\<lambda>(member, role).
                  Element ''member''
                    [(''type'', member_type (h ! member)),
                     (''ref'', str_int (id_of (h ! member))),
                     (''role'', role)] []) members @
           [Element ''tag'' [(''k'', ''type''), (''v'', ''multipolygon'')] []] @
           map (\<lambda>(key, value_list).
                  Element ''tag'' [(''k'', key), (''v'', py_join '','' value_list)] []) tg)) \<and>
   (to_xml lx h attributes significant_digits (OsmRelation i tg ps members) = Inr markup
    \<longleftrightarrow>
      (\<exists>built. xmlobject_of lx h attributes significant_digits (OsmRelation i tg ps members) =
           Inr built \<and> markup = tostring built)) \<and>
   member_type (OsmNode i' tg' ps' x y) = ''node'' \<and>
   member_type (OsmWay i' tg' ps' nodes) = ''way'' \<and>
   member_type (OsmRelation i' tg' ps' members') = ''relation''"
proof -
  have "to_xml lx h attributes significant_digits (OsmRelation i tg ps members) = Inr markup
    \<longleftrightarrow>
      (\<exists>built. xmlobject_of lx h attributes significant_digits (OsmRelation i tg ps members) =
           Inr built \<and> markup = tostring built)"
    unfolding to_xml_def by (auto split: sum.splits)
  with xmlobject_of_relation[of lx h attributes significant_digits i tg ps members xmlobject]
  show ?thesis by simp
qed

theorem relation_children_in_order_witness:
  \<open>xmlobject_of lxml_ascii [OsmNode 7 [] {} NaN NaN, OsmWay 8 [] {} [], OsmRelation 9 [] {} []]
     [] 5
     (OsmRelation (- 3) [(''name'', [''a<b''])] {} [(0, ''outer''), (1, ''''), (2, ''inner'')]) =
     Inr (Element ''relation'' [(''visible'', ''true''), (''id'', ''-3'')]
       [Element ''member'' [(''type'', ''node''), (''ref'', ''7''), (''role'', ''outer'')] [],
        Element ''member'' [(''type'', ''way''), (''ref'', ''8''), (''role'', '''')] [],
        Element ''member'' [(''type'', ''relation''), (''ref'', ''9''), (''role'', ''inner'')] [],
        Element ''tag'' [(''k'', ''type''), (''v'', ''multipolygon'')] [],
        Element ''tag'' [(''k'', ''name''), (''v'', ''a<b'')] []]) \<and>
   to_xml lxml_ascii [OsmNode 7 [] {} NaN NaN, OsmWay 8 [] {} [], OsmRelation 9 [] {} []] [] 5
     (OsmRelation (- 3) [(''name'', [''a<b''])] {} [(0, ''outer''), (1, ''''), (2, ''inner'')]) =
     Inr ''<relation visible="true" id="-3"><member type="node" ref="7" role="outer"/><member type="way" ref="8" role=""/><member type="relation" ref="9" role="inner"/><tag k="type" v="multipolygon"/><tag k="name" v="a&lt;b"/></relation>''\<close>
proof -
  let ?h = "[OsmNode 7 [] {} NaN NaN, OsmWay 8 [] {} [], OsmRelation 9 [] {} []]"
  let ?el = "Element ''relation'' [(''visible'', ''true''), (''id'', ''-3'')]
       [Element ''member'' [(''type'', ''node''), (''ref'', ''7''), (''role'', ''outer'')] [],
        Element ''member'' [(''type'', ''way''), (''ref'', ''8''), (''role'', '''')] [],
        Element ''member'' [(''type'', ''relation''), (''ref'', ''9''), (''role'', ''inner'')] [],
        Element ''tag'' [(''k'', ''type''), (''v'', ''multipolygon'')] [],
        Element ''tag'' [(''k'', ''name''), (''v'', ''a<b'')] []]"
  let ?m = \<open>''<relation visible="true" id="-3"><member type="node" ref="7" role="outer"/><member type="way" ref="8" role=""/><member type="relation" ref="9" role="inner"/><tag k="type" v="multipolygon"/><tag k="name" v="a&lt;b"/></relation>''\<close>
  have ok: "accepts lxml_ascii ''relation''
        (dict_update [(''visible'', ''true''), (''id'', str_int (- 3))] []) \<and>
      list_all (\<lambda>(member, role). member < length ?h \<and>
         accepts lxml_ascii ''member''
           [(''type'', member_type (?h ! member)),
            (''ref'', str_int (id_of (?h ! member))),
            (''role'', role)]) [(0, ''outer''), (1, ''''), (2, ''inner'')] \<and>
      accepts lxml_ascii ''tag'' [(''k'', ''type''), (''v'', ''multipolygon'')] \<and>
      list_all (\<lambda>(key, value_list).
         accepts lxml_ascii ''tag'' [(''k'', key), (''v'', py_join '','' value_list)])
        [(''name'', [''a<b''])] \<and>
      ?el =
        Element ''relation''
          (dict_update [(''visible'', ''true''), (''id'', str_int (- 3))] [])
          (map (\<lambda>(member, role).
                  Element ''member''
                    [(''type'', member_type (?h ! member)),
                     (''ref'', str_int (id_of (?h ! member))),
                     (''role'', role)] []) [(0, ''outer''), (1, ''''), (2, ''inner'')] @
           [Element ''tag'' [(''k'', ''type''), (''v'', ''multipolygon'')] []] @
           map (\<lambda>(key, value_list).
                  Element ''tag'' [(''k'', key), (''v'', py_join '','' value_list)] [])
             [(''name'', [''a<b''])])"
    by code_simp
  have ts: "?m = tostring ?el"
    by code_simp
  note inst = relation_children_in_order[of lxml_ascii ?h "[]" 5 "- 3" "[(''name'', [''a<b''])]"
      "{}" "[(0, ''outer''), (1, ''''), (2, ''inner'')]" ?el ?m 0 "[]" "{}" NaN NaN "[]" "[]"]
  have x: "xmlobject_of lxml_ascii ?h [] 5
     (OsmRelation (- 3) [(''name'', [''a<b''])] {} [(0, ''outer''), (1, ''''), (2, ''inner'')]) =
     Inr ?el"
    by (rule inst[THEN conjunct1, THEN iffD2, OF ok])
  have "\<exists>built. xmlobject_of lxml_ascii ?h [] 5
     (OsmRelation (- 3) [(''name'', [''a<b''])] {} [(0, ''outer''), (1, ''''), (2, ''inner'')]) =
     Inr built \<and> ?m = tostring built"
    by (rule exI[of _ ?el], rule conjI, rule x, rule ts)
  then have t: "to_xml lxml_ascii ?h [] 5
     (OsmRelation (- 3) [(''name'', [''a<b''])] {} [(0, ''outer''), (1, ''''), (2, ''inner'')]) =
     Inr ?m"
    by (rule inst[THEN conjunct2, THEN conjunct1, THEN iffD2])
  from x t show ?thesis by (rule conjI)
qed

subsection \<open>Attributes\<close>

lemma overlay_wins:
  assumes "distinct (map fst own)" and "distinct (map fst attributes)"
    and "(k, v) \<in> set attributes"
  shows "map_of (dict_update own attributes) k = Some v \<and>
         distinct (map fst (dict_update own attributes))"
  using map_of_dict_update_wins[OF assms(2,3), of own] distinct_dict_update[OF assms(1), of attributes]
  by simp

text \<open>
  C9. The attributes handed to \<^verbatim>\<open>to_xml\<close> are a dictionary, so their keys are
  distinct. For each of the three classes, the element is built exactly when lxml
  accepts what the method hands it (and, for a way or a relation, every node or member
  is an entity), and its attributes are then the entity's own computed attributes
  (\<^verbatim>\<open>visible\<close>, \<^verbatim>\<open>id\<close>, and for a node \<^verbatim>\<open>lat\<close> and \<^verbatim>\<open>lon\<close>) updated with
  the caller's: every key the caller supplies carries the caller's value, also when it
  collides with a computed one, and no key occurs twice.
\<close>

theorem caller_attributes_take_precedence:
  assumes "distinct (map fst attributes)"
    and "(k, v) \<in> set attributes"
  shows
   "((xmlobject_of lx h attributes significant_digits (OsmNode i tg ps x y) = Inr built_node
      \<longleftrightarrow>
        accepts lx ''node''
          (dict_update
             [(''visible'', ''true''), (''id'', str_int i),
              (''lat'', py_strip ''0'' (format_f significant_digits y)),
              (''lon'', py_strip ''0'' (format_f significant_digits x))] attributes) \<and>
        list_all (\<lambda>(key, value_list).
           accepts lx ''tag'' [(''k'', key), (''v'', py_join '','' value_list)]) tg \<and>
        built_node =
          Element ''node''
            (dict_update
               [(''visible'', ''true''), (''id'', str_int i),
                (''lat'', py_strip ''0'' (format_f significant_digits y)),
                (''lon'', py_strip ''0'' (format_f significant_digits x))] attributes)
            (map (\<lambda>(key, value_list).
                    Element ''tag'' [(''k'', key), (''v'', py_join '','' value_list)] []) tg)) \<and>
     map_of
       (dict_update
          [(''visible'', ''true''), (''id'', str_int i),
           (''lat'', py_strip ''0'' (format_f significant_digits y)),
           (''lon'', py_strip ''0'' (format_f significant_digits x))] attributes) k = Some v \<and>
     distinct (map fst
       (dict_update
          [(''visible'', ''true''), (''id'', str_int i),
           (''lat'', py_strip ''0'' (format_f significant_digits y)),
           (''lon'', py_strip ''0'' (format_f significant_digits x))] attributes))) \<and>
    ((xmlobject_of lx h attributes significant_digits (OsmWay way_id way_tags way_parents nodes) =
        Inr built_way
      \<longleftrightarrow>
        accepts lx ''way''
          (dict_update [(''visible'', ''true''), (''id'', str_int way_id)] attributes) \<and>
        list_all (\<lambda>node. node < length h \<and>
           accepts lx ''nd'' [(''ref'', str_int (id_of (h ! node)))]) nodes \<and>
        list_all (\<lambda>(key, value_list).
           accepts lx ''tag'' [(''k'', key), (''v'', py_join '','' value_list)]) way_tags \<and>
        built_way =
          Element ''way''
            (dict_update [(''visible'', ''true''), (''id'', str_int way_id)] attributes)
            (map (\<lambda>node. Element ''nd'' [(''ref'', str_int (id_of (h ! node)))] []) nodes @
             map (\<lambda>(key, value_list).
                    Element ''tag'' [(''k'', key), (''v'', py_join '','' value_list)] [])
               way_tags)) \<and>
     map_of (dict_update [(''visible'', ''true''), (''id'', str_int way_id)] attributes) k =
       Some v \<and>
     distinct (map fst
       (dict_update [(''visible'', ''true''), (''id'', str_int way_id)] attributes))) \<and>
    ((xmlobject_of lx h attributes significant_digits
         (OsmRelation rel_id rel_tags rel_parents members) = Inr built_relation
      \<longleftrightarrow>
        accepts lx ''relation''
          (dict_update [(''visible'', ''true''), (''id'', str_int rel_id)] attributes) \<and>
        list_all (\<lambda>(member, role). member < length h \<and>
           accepts lx ''member''
             [(''type'', member_type (h ! member)),
              (''ref'', str_int (id_of (h ! member))),
              (''role'', role)]) members \<and>
        accepts lx ''tag'' [(''k'', ''type''), (''v'', ''multipolygon'')] \<and>
        list_all (\<lambda>(key, value_list).
           accepts lx ''tag'' [(''k'', key), (''v'', py_join '','' value_list)]) rel_tags \<and>
        built_relation =
          Element ''relation''
            (dict_update [(''visible'', ''true''), (''id'', str_int rel_id)] attributes)
            (map (\<lambda>(member, role).
                    Element ''member''
                      [(''type'', member_type (h ! member)),
                       (''ref'', str_int (id_of (h ! member))),
                       (''role'', role)] []) members @
             [Element ''tag'' [(''k'', ''type''), (''v'', ''multipolygon'')] []] @
             map (\<lambda>(key, value_list).
                    Element ''tag'' [(''k'', key), (''v'', py_join '','' value_list)] [])
               rel_tags)) \<and>
     map_of (dict_update [(''visible'', ''true''), (''id'', str_int rel_id)] attributes) k =
       Some v \<and>
     distinct (map fst
       (dict_update [(''visible'', ''true''), (''id'', str_int rel_id)] attributes))) \<and>
    (xmlobject_of lx h attributes significant_digits self = Inr xmlobject \<longrightarrow>
       attrib_of xmlobject =
         dict_update
           (case self of
              OsmNode i tg ps x y \<Rightarrow>
                [(''visible'', ''true''), (''id'', str_int i),
                 (''lat'', py_strip ''0'' (format_f significant_digits y)),
                 (''lon'', py_strip ''0'' (format_f significant_digits x))]
            | OsmWay i tg ps nodes \<Rightarrow> [(''visible'', ''true''), (''id'', str_int i)]
            | OsmRelation i tg ps members \<Rightarrow> [(''visible'', ''true''), (''id'', str_int i)])
           attributes \<and>
       map_of (attrib_of xmlobject) k = Some v \<and>
       distinct (map fst (attrib_of xmlobject)))"
proof -
  note node = xmlobject_of_node[of lx h attributes significant_digits i tg ps x y built_node]
  note way = xmlobject_of_way[of lx h attributes significant_digits way_id way_tags way_parents
      nodes built_way]
  note relation = xmlobject_of_relation[of lx h attributes significant_digits rel_id rel_tags
      rel_parents members built_relation]
  have own_node: "distinct (map fst
      [(''visible'', ''true''), (''id'', str_int i),
       (''lat'', py_strip ''0'' (format_f significant_digits y)),
       (''lon'', py_strip ''0'' (format_f significant_digits x))])"
    by simp
  have own_other: "\<And>n. distinct (map fst [(''visible'', ''true''), (''id'', str_int n)])"
    by simp
  note wins_node = overlay_wins[OF own_node assms]
  note wins_way = overlay_wins[OF own_other[of way_id] assms]
  note wins_relation = overlay_wins[OF own_other[of rel_id] assms]
  have any: "xmlobject_of lx h attributes significant_digits self = Inr xmlobject \<longrightarrow>
       attrib_of xmlobject =
         dict_update
           (case self of
              OsmNode i tg ps x y \<Rightarrow>
                [(''visible'', ''true''), (''id'', str_int i),
                 (''lat'', py_strip ''0'' (format_f significant_digits y)),
                 (''lon'', py_strip ''0'' (format_f significant_digits x))]
            | OsmWay i tg ps nodes \<Rightarrow> [(''visible'', ''true''), (''id'', str_int i)]
            | OsmRelation i tg ps members \<Rightarrow> [(''visible'', ''true''), (''id'', str_int i)])
           attributes \<and>
       map_of (attrib_of xmlobject) k = Some v \<and>
       distinct (map fst (attrib_of xmlobject))"
  proof
    assume built: "xmlobject_of lx h attributes significant_digits self = Inr xmlobject"
    show "attrib_of xmlobject =
         dict_update
           (case self of
              OsmNode i tg ps x y \<Rightarrow>
                [(''visible'', ''true''), (''id'', str_int i),
                 (''lat'', py_strip ''0'' (format_f significant_digits y)),
                 (''lon'', py_strip ''0'' (format_f significant_digits x))]
            | OsmWay i tg ps nodes \<Rightarrow> [(''visible'', ''true''), (''id'', str_int i)]
            | OsmRelation i tg ps members \<Rightarrow> [(''visible'', ''true''), (''id'', str_int i)])
           attributes \<and>
       map_of (attrib_of xmlobject) k = Some v \<and>
       distinct (map fst (attrib_of xmlobject))"
    proof (cases self)
      case (OsmNode i' tg' ps' x' y')
      from built have e: "xmlobject_of lx h attributes significant_digits
          (OsmNode i' tg' ps' x' y') = Inr xmlobject"
        unfolding OsmNode .
      from xmlobject_of_node[THEN iffD1, OF e] have a: "attrib_of xmlobject =
          dict_update [(''visible'', ''true''), (''id'', str_int i'),
                       (''lat'', py_strip ''0'' (format_f significant_digits y')),
                       (''lon'', py_strip ''0'' (format_f significant_digits x'))] attributes"
        by simp
      have "distinct (map fst [(''visible'', ''true''), (''id'', str_int i'),
                       (''lat'', py_strip ''0'' (format_f significant_digits y')),
                       (''lon'', py_strip ''0'' (format_f significant_digits x'))])"
        by simp
      from overlay_wins[OF this assms] a OsmNode show ?thesis by simp
    next
      case (OsmWay i' tg' ps' nodes')
      from built have e: "xmlobject_of lx h attributes significant_digits
          (OsmWay i' tg' ps' nodes') = Inr xmlobject"
        unfolding OsmWay .
      from xmlobject_of_way[THEN iffD1, OF e] have a: "attrib_of xmlobject =
          dict_update [(''visible'', ''true''), (''id'', str_int i')] attributes"
        by simp
      from overlay_wins[OF own_other[of i'] assms] a OsmWay show ?thesis by simp
    next
      case (OsmRelation i' tg' ps' members')
      from built have e: "xmlobject_of lx h attributes significant_digits
          (OsmRelation i' tg' ps' members') = Inr xmlobject"
        unfolding OsmRelation .
      from xmlobject_of_relation[THEN iffD1, OF e] have a: "attrib_of xmlobject =
          dict_update [(''visible'', ''true''), (''id'', str_int i')] attributes"
        by simp
      from overlay_wins[OF own_other[of rel_id] assms] overlay_wins[OF own_other[of i'] assms]
        a OsmRelation show ?thesis by simp
    qed
  qed
  show ?thesis
    apply (intro conjI)
    apply (rule node)
    apply (rule wins_node[THEN conjunct1])
    apply (rule wins_node[THEN conjunct2])
    apply (rule way)
    apply (rule wins_way[THEN conjunct1])
    apply (rule wins_way[THEN conjunct2])
    apply (rule relation)
    apply (rule wins_relation[THEN conjunct1])
    apply (rule wins_relation[THEN conjunct2])
    apply (rule any)
    done
qed

theorem caller_attributes_take_precedence_witness:
  \<open>distinct (map fst [(''id'', ''9''), (''user'', ''a"b''), (''lat'', ''0'')]) \<and>
   (''id'', ''9'') \<in> set [(''id'', ''9''), (''user'', ''a"b''), (''lat'', ''0'')] \<and>
   xmlobject_of lxml_ascii [OsmNode 7 [] {} NaN NaN]
       [(''id'', ''9''), (''user'', ''a"b''), (''lat'', ''0'')] 6
       (OsmNode (- 1) [] {} NaN NaN) =
     Inr (Element ''node''
       [(''visible'', ''true''), (''id'', ''9''), (''lat'', ''0''), (''lon'', ''nan''),
        (''user'', ''a"b'')] []) \<and>
   xmlobject_of lxml_ascii [OsmNode 7 [] {} NaN NaN]
       [(''id'', ''9''), (''user'', ''a"b''), (''lat'', ''0'')] 6
       (OsmWay (- 2) [(''highway'', [''path''])] {} [0]) =
     Inr (Element ''way''
       [(''visible'', ''true''), (''id'', ''9''), (''user'', ''a"b''), (''lat'', ''0'')]
       [Element ''nd'' [(''ref'', ''7'')] [],
        Element ''tag'' [(''k'', ''highway''), (''v'', ''path'')] []]) \<and>
   xmlobject_of lxml_ascii [OsmNode 7 [] {} NaN NaN]
       [(''id'', ''9''), (''user'', ''a"b''), (''lat'', ''0'')] 6
       (OsmRelation (- 3) [] {} [(0, ''outer'')]) =
     Inr (Element ''relation''
       [(''visible'', ''true''), (''id'', ''9''), (''user'', ''a"b''), (''lat'', ''0'')]
       [Element ''member'' [(''type'', ''node''), (''ref'', ''7''), (''role'', ''outer'')] [],
        Element ''tag'' [(''k'', ''type''), (''v'', ''multipolygon'')] []]) \<and>
   map_of (attrib_of (Element ''node''
       [(''visible'', ''true''), (''id'', ''9''), (''lat'', ''0''), (''lon'', ''nan''),
        (''user'', ''a"b'')] [])) ''id'' = Some ''9'' \<and>
   map_of (attrib_of (Element ''way''
       [(''visible'', ''true''), (''id'', ''9''), (''user'', ''a"b''), (''lat'', ''0'')]
       [Element ''nd'' [(''ref'', ''7'')] [],
        Element ''tag'' [(''k'', ''highway''), (''v'', ''path'')] []])) ''id'' = Some ''9'' \<and>
   map_of (attrib_of (Element ''relation''
       [(''visible'', ''true''), (''id'', ''9''), (''user'', ''a"b''), (''lat'', ''0'')]
       [Element ''member'' [(''type'', ''node''), (''ref'', ''7''), (''role'', ''outer'')] [],
        Element ''tag'' [(''k'', ''type''), (''v'', ''multipolygon'')] []])) ''id'' = Some ''9'' \<and>
   to_xml lxml_ascii [OsmNode 7 [] {} NaN NaN]
       [(''id'', ''9''), (''user'', ''a"b''), (''lat'', ''0'')] 6
       (OsmNode (- 1) [] {} NaN NaN) =
     Inr ''<node visible="true" id="9" lat="0" lon="nan" user="a&quot;b"/>'' \<and>
   to_xml lxml_ascii [OsmNode 7 [] {} NaN NaN]
       [(''id'', ''9''), (''user'', ''a"b''), (''lat'', ''0'')] 6
       (OsmWay (- 2) [(''highway'', [''path''])] {} [0]) =
     Inr ''<way visible="true" id="9" user="a&quot;b" lat="0"><nd ref="7"/><tag k="highway" v="path"/></way>'' \<and>
   to_xml lxml_ascii [OsmNode 7 [] {} NaN NaN]
       [(''id'', ''9''), (''user'', ''a"b''), (''lat'', ''0'')] 6
       (OsmRelation (- 3) [] {} [(0, ''outer'')]) =
     Inr ''<relation visible="true" id="9" user="a&quot;b" lat="0"><member type="node" ref="7" role="outer"/><tag k="type" v="multipolygon"/></relation>''\<close>
proof -
  let ?h = "[OsmNode 7 [] {} NaN NaN]"
  let ?attributes = \<open>[(''id'', ''9''), (''user'', ''a"b''), (''lat'', ''0'')]\<close>
  let ?node = "OsmNode (- 1) [] {} NaN NaN"
  let ?way = "OsmWay (- 2) [(''highway'', [''path''])] {} [0]"
  let ?relation = "OsmRelation (- 3) [] {} [(0, ''outer'')]"
  let ?built_node = \<open>Element ''node''
       [(''visible'', ''true''), (''id'', ''9''), (''lat'', ''0''), (''lon'', ''nan''),
        (''user'', ''a"b'')] []\<close>
  let ?built_way = \<open>Element ''way''
       [(''visible'', ''true''), (''id'', ''9''), (''user'', ''a"b''), (''lat'', ''0'')]
       [Element ''nd'' [(''ref'', ''7'')] [],
        Element ''tag'' [(''k'', ''highway''), (''v'', ''path'')] []]\<close>
  let ?built_relation = \<open>Element ''relation''
       [(''visible'', ''true''), (''id'', ''9''), (''user'', ''a"b''), (''lat'', ''0'')]
       [Element ''member'' [(''type'', ''node''), (''ref'', ''7''), (''role'', ''outer'')] [],
        Element ''tag'' [(''k'', ''type''), (''v'', ''multipolygon'')] []]\<close>
  have d: "distinct (map fst ?attributes)"
    by simp
  have m: "(''id'', ''9'') \<in> set ?attributes"
    by simp
  note inst = caller_attributes_take_precedence[OF d m, where lx = lxml_ascii and h = ?h
      and significant_digits = 6
      and i = "- 1" and tg = "[]" and ps = "{}" and x = NaN and y = NaN
      and built_node = ?built_node
      and way_id = "- 2" and way_tags = "[(''highway'', [''path''])]" and way_parents = "{}"
      and nodes = "[0]" and built_way = ?built_way
      and rel_id = "- 3" and rel_tags = "[]" and rel_parents = "{}"
      and members = "[(0, ''outer'')]" and built_relation = ?built_relation]
  have n: "xmlobject_of lxml_ascii ?h ?attributes 6 ?node = Inr ?built_node"
    by (rule inst[THEN conjunct1, THEN conjunct1, THEN iffD2]) code_simp
  have w: "xmlobject_of lxml_ascii ?h ?attributes 6 ?way = Inr ?built_way"
    by (rule inst[THEN conjunct2, THEN conjunct1, THEN conjunct1, THEN iffD2]) code_simp
  have r: "xmlobject_of lxml_ascii ?h ?attributes 6 ?relation = Inr ?built_relation"
    by (rule inst[THEN conjunct2, THEN conjunct2, THEN conjunct1, THEN conjunct1, THEN iffD2])
      code_simp
  have mn: "map_of (attrib_of ?built_node) ''id'' = Some ''9''"
    by (rule inst[where self = ?node and xmlobject = ?built_node,
          THEN conjunct2, THEN conjunct2, THEN conjunct2, THEN mp, OF n,
          THEN conjunct2, THEN conjunct1])
  have mw: "map_of (attrib_of ?built_way) ''id'' = Some ''9''"
    by (rule inst[where self = ?way and xmlobject = ?built_way,
          THEN conjunct2, THEN conjunct2, THEN conjunct2, THEN mp, OF w,
          THEN conjunct2, THEN conjunct1])
  have mr: "map_of (attrib_of ?built_relation) ''id'' = Some ''9''"
    by (rule inst[where self = ?relation and xmlobject = ?built_relation,
          THEN conjunct2, THEN conjunct2, THEN conjunct2, THEN mp, OF r,
          THEN conjunct2, THEN conjunct1])
  have tn: \<open>to_xml lxml_ascii ?h ?attributes 6 ?node =
     Inr ''<node visible="true" id="9" lat="0" lon="nan" user="a&quot;b"/>''\<close>
    by code_simp
  have tw: \<open>to_xml lxml_ascii ?h ?attributes 6 ?way =
     Inr ''<way visible="true" id="9" user="a&quot;b" lat="0"><nd ref="7"/><tag k="highway" v="path"/></way>''\<close>
    by code_simp
  have tr: \<open>to_xml lxml_ascii ?h ?attributes 6 ?relation =
     Inr ''<relation visible="true" id="9" user="a&quot;b" lat="0"><member type="node" ref="7" role="outer"/><tag k="type" v="multipolygon"/></relation>''\<close>
    by code_simp
  from d m n w r mn mw mr tn tw tr show ?thesis
    by (intro conjI)
qed

subsection \<open>Coordinates\<close>

lemma digit_char_digit: "d < 10 \<Longrightarrow> digit_char d \<in> set ''0123456789''"
proof -
  assume "d < 10"
  then have "d \<in> {0, 1, 2, 3, 4, 5, 6, 7, 8, 9}" by auto
  then show ?thesis by (auto simp: digit_char_def)
qed

lemma str_nat_digits: "set (str_nat n) \<subseteq> set ''0123456789''"
proof (induction n rule: str_nat.induct)
  case (1 n)
  show ?case
  proof (cases "n < 10")
    case True
    then show ?thesis
      using digit_char_digit[of n] by (subst str_nat.simps) simp
  next
    case False
    have "n mod 10 < 10" by simp
    from digit_char_digit[OF this] 1[OF False] False show ?thesis
      by (subst str_nat.simps) simp
  qed
qed

lemma str_nat_not_empty: "str_nat n \<noteq> []"
  by (subst str_nat.simps) simp

lemma format_f_finite:
  assumes "0 < p"
  shows "\<exists>ip fp. format_f p (Finite s m e) = (if s then ''-'' else '''') @ ip @ ''.'' @ fp \<and>
           ip \<noteq> [] \<and> length fp = p \<and>
           set ip \<subseteq> set ''0123456789'' \<and> set fp \<subseteq> set ''0123456789''"
proof -
  define ds where "ds = str_nat (scaled m e p)"
  define padded where "padded = replicate (p + 1 - length ds) (CHR ''0'') @ ds"
  define n where "n = length padded - p"
  have len: "p + 1 \<le> length padded"
    by (simp add: padded_def)
  have digits: "set padded \<subseteq> set ''0123456789''"
    using str_nat_digits[of "scaled m e p"] by (auto simp: padded_def ds_def)
  have f: "format_f p (Finite s m e) =
      (if s then ''-'' else '''') @ take n padded @ ''.'' @ drop n padded"
    using assms by (simp add: format_f_def Let_def ds_def padded_def n_def)
  have "take n padded \<noteq> []" using len by (auto simp: n_def)
  moreover have "length (drop n padded) = p" using len by (simp add: n_def)
  moreover have "set (take n padded) \<subseteq> set ''0123456789''"
    using digits set_take_subset[of n padded] by blast
  moreover have "set (drop n padded) \<subseteq> set ''0123456789''"
    using digits set_drop_subset[of n padded] by blast
  ultimately show ?thesis using f by blast
qed

lemma py_strip_both_ends:
  "\<exists>a b. s = a @ py_strip chars s @ b \<and> set a \<subseteq> set chars \<and> set b \<subseteq> set chars \<and>
     (py_strip chars s \<noteq> [] \<longrightarrow>
        hd (py_strip chars s) \<notin> set chars \<and> last (py_strip chars s) \<notin> set chars)"
proof -
  let ?P = "\<lambda>c. c \<in> set chars"
  define t where "t = dropWhile ?P s"
  define r where "r = rev (dropWhile ?P (rev t))"
  define b where "b = rev (takeWhile ?P (rev t))"
  have r: "py_strip chars s = r" by (simp add: py_strip_def r_def t_def)
  have "rev (takeWhile ?P (rev t) @ dropWhile ?P (rev t)) = rev (rev t)"
    by (simp only: takeWhile_dropWhile_id)
  then have t: "t = r @ b"
    by (simp only: rev_append rev_rev_ident r_def b_def)
  have "s = takeWhile ?P s @ t"
    by (simp add: t_def)
  then have s: "s = takeWhile ?P s @ r @ b"
    by (simp only: t)
  have a_in: "set (takeWhile ?P s) \<subseteq> set chars"
    using set_takeWhileD by fastforce
  have b_in: "set b \<subseteq> set chars"
    unfolding b_def using set_takeWhileD by fastforce
  have ends: "r \<noteq> [] \<longrightarrow> hd r \<notin> set chars \<and> last r \<notin> set chars"
  proof
    assume ne: "r \<noteq> []"
    then have tne: "t \<noteq> []" using t by simp
    have "hd t \<notin> set chars" using tne hd_dropWhile[of ?P s] by (simp add: t_def)
    moreover have "hd t = hd r" using t ne by simp
    moreover have "dropWhile ?P (rev t) \<noteq> []" using ne by (simp add: r_def)
    then have "hd (dropWhile ?P (rev t)) \<notin> set chars" by (rule hd_dropWhile)
    moreover have "last r = hd (dropWhile ?P (rev t))"
      using ne by (simp add: r_def last_rev)
    ultimately show "hd r \<notin> set chars \<and> last r \<notin> set chars" by simp
  qed
  from s a_in b_in ends show ?thesis unfolding r by blast
qed

lemma scaled_52_5: "scaled 105 (- 1) 6 = 52500000"
  by (simp add: scaled_def round_half_even_def Let_def)

lemma format_52_5: "format_f 6 (Finite False 105 (- 1)) = ''52.500000''"
  unfolding format_f_def pyfloat.case scaled_52_5 Let_def
  by (simp add: str_nat.simps digit_char_def)

lemma strip_52_5: "py_strip ''0'' (format_f 6 (Finite False 105 (- 1))) = ''52.5''"
  unfolding format_52_5 by (simp add: py_strip_def)

lemma strip_0_0: "py_strip ''0'' (format_f 6 (Finite False 0 0)) = ''.''"
proof -
  have "scaled 0 0 6 = 0"
    by (simp add: scaled_def)
  then have "format_f 6 (Finite False 0 0) = ''0.000000''"
    unfolding format_f_def pyfloat.case Let_def
    by (simp add: str_nat.simps digit_char_def eval_nat_numeral)
  then show ?thesis by (simp add: py_strip_def)
qed

lemma strip_0_5: "py_strip ''0'' (format_f 6 (Finite False 1 (- 1))) = ''.5''"
proof -
  have "scaled 1 (- 1) 6 = 500000"
    by (simp add: scaled_def round_half_even_def Let_def)
  then have "format_f 6 (Finite False 1 (- 1)) = ''0.500000''"
    unfolding format_f_def pyfloat.case Let_def
    by (simp add: str_nat.simps digit_char_def)
  then show ?thesis by (simp add: py_strip_def)
qed

lemma OsmBoundary_xmlobject_Inr:
  "OsmBoundary_xmlobject lx significant_digits self = Inr xmlobject \<longleftrightarrow>
     accepts lx ''bounds''
       [(''minlon'', py_strip ''0'' (format_f significant_digits (minlon self))),
        (''minlat'', py_strip ''0'' (format_f significant_digits (minlat self))),
        (''maxlon'', py_strip ''0'' (format_f significant_digits (maxlon self))),
        (''maxlat'', py_strip ''0'' (format_f significant_digits (maxlat self)))] \<and>
     xmlobject = Element ''bounds''
       [(''minlon'', py_strip ''0'' (format_f significant_digits (minlon self))),
        (''minlat'', py_strip ''0'' (format_f significant_digits (minlat self))),
        (''maxlon'', py_strip ''0'' (format_f significant_digits (maxlon self))),
        (''maxlat'', py_strip ''0'' (format_f significant_digits (maxlat self)))] []"
  by (auto simp: OsmBoundary_xmlobject_def Let_def etree_Element_def)

lemma node_52_5: \<open>to_xml lxml_ascii [] [] 6
       (OsmNode (- 1) [] {} (Finite False 105 (- 1)) (Finite False 0 0)) =
     Inr ''<node visible="true" id="-1" lat="." lon="52.5"/>''\<close>
  unfolding to_xml_def xmlobject_of.simps Let_def strip_52_5 strip_0_0
  by code_simp

lemma bounds_52_5: \<open>OsmBoundary_to_xml lxml_ascii 6
       \<lparr> is_valid = True, minlon = Finite False 0 0, maxlon = Finite False 105 (- 1),
         minlat = Finite False 0 0, maxlat = Finite False 105 (- 1) \<rparr> =
     Inr ''<bounds minlon="." minlat="." maxlon="52.5" maxlat="52.5"/>''\<close>
  unfolding OsmBoundary_to_xml_def OsmBoundary_xmlobject_def Let_def OsmBoundary.simps
    strip_52_5 strip_0_0
  by code_simp

lemma node_0_5: \<open>to_xml lxml_ascii [] [] 6
       (OsmNode (- 1) [] {} (Finite False 1 (- 1)) (Finite False 0 0)) =
     Inr ''<node visible="true" id="-1" lat="." lon=".5"/>''\<close>
  unfolding to_xml_def xmlobject_of.simps Let_def strip_0_5 strip_0_0
  by code_simp

lemma node_nan: \<open>to_xml lxml_ascii [] [] 6 (OsmNode (- 1) [] {} (Infinity False) NaN) =
     Inr ''<node visible="true" id="-1" lat="nan" lon="inf"/>''\<close>
  by code_simp

lemma strip_nan: "py_strip ''0'' (format_f p NaN) = ''nan''"
  by (simp add: format_f_def py_strip_def)

lemma strip_inf: "py_strip ''0'' (format_f p (Infinity s)) = (if s then ''-inf'' else ''inf'')"
  by (simp add: format_f_def py_strip_def)

lemma node_error_is_ValueError:
  "xmlobject_of lx h attributes p (OsmNode i tg ps x y) = Inl err \<Longrightarrow> err = ValueError"
  by (auto simp: Let_def etree_Element_def append_tags_result split: if_splits)

lemma to_xml_Inr:
  "to_xml lx h attributes p self = Inr markup \<longleftrightarrow>
     (\<exists>built. xmlobject_of lx h attributes p self = Inr built \<and> markup = tostring built)"
  unfolding to_xml_def by (auto split: sum.splits)

text \<open>
  C1, as the code has it. With \<open>p > 0\<close> digits requested, a finite coordinate is
  rendered as an optional minus sign, at least one digit, a decimal point and exactly
  \<open>p\<close> digits. \<^verbatim>\<open>strip('0')\<close> then removes zeros at both ends of that string, the
  leading ones as well as the trailing ones, and stops at the first character that is
  not a zero. At precision 6 the value 52.5 is written \<^verbatim>\<open>52.5\<close> and the value 0.0 is
  written \<^verbatim>\<open>.\<close>, in the attributes of a \<^verbatim>\<open>bounds\<close> element and in \<^verbatim>\<open>lat\<close> and
  \<^verbatim>\<open>lon\<close> of a \<^verbatim>\<open>node\<close> element alike.
\<close>

theorem format_then_strip_zeros:
  "(0 < p \<longrightarrow>
      (\<exists>ip fp. format_f p (Finite s m e) = (if s then ''-'' else '''') @ ip @ ''.'' @ fp \<and>
         ip \<noteq> [] \<and> length fp = p \<and>
         set ip \<subseteq> set ''0123456789'' \<and> set fp \<subseteq> set ''0123456789'')) \<and>
   (\<exists>a b. format_f p v = a @ py_strip ''0'' (format_f p v) @ b \<and>
      set a \<subseteq> {CHR ''0''} \<and> set b \<subseteq> {CHR ''0''} \<and>
      (py_strip ''0'' (format_f p v) \<noteq> [] \<longrightarrow>
         hd (py_strip ''0'' (format_f p v)) \<noteq> CHR ''0'' \<and>
         last (py_strip ''0'' (format_f p v)) \<noteq> CHR ''0'')) \<and>
   py_strip ''0'' (format_f 6 (Finite False 105 (- 1))) = ''52.5'' \<and>
   py_strip ''0'' (format_f 6 (Finite False 0 0)) = ''.'' \<and>
   (OsmBoundary_xmlobject lx p self = Inr xmlobject \<longrightarrow>
      attrib_of xmlobject =
        [(''minlon'', py_strip ''0'' (format_f p (minlon self))),
         (''minlat'', py_strip ''0'' (format_f p (minlat self))),
         (''maxlon'', py_strip ''0'' (format_f p (maxlon self))),
         (''maxlat'', py_strip ''0'' (format_f p (maxlat self)))]) \<and>
   (xmlobject_of lx h [] p (OsmNode i tg ps x y) = Inr built \<longrightarrow>
      attrib_of built =
        [(''visible'', ''true''), (''id'', str_int i),
         (''lat'', py_strip ''0'' (format_f p y)),
         (''lon'', py_strip ''0'' (format_f p x))])"
proof -
  have shape: "0 < p \<longrightarrow>
      (\<exists>ip fp. format_f p (Finite s m e) = (if s then ''-'' else '''') @ ip @ ''.'' @ fp \<and>
         ip \<noteq> [] \<and> length fp = p \<and>
         set ip \<subseteq> set ''0123456789'' \<and> set fp \<subseteq> set ''0123456789'')"
    using format_f_finite[of p s m e] by blast
  have strip: "\<exists>a b. format_f p v = a @ py_strip ''0'' (format_f p v) @ b \<and>
      set a \<subseteq> {CHR ''0''} \<and> set b \<subseteq> {CHR ''0''} \<and>
      (py_strip ''0'' (format_f p v) \<noteq> [] \<longrightarrow>
         hd (py_strip ''0'' (format_f p v)) \<noteq> CHR ''0'' \<and>
         last (py_strip ''0'' (format_f p v)) \<noteq> CHR ''0'')"
    using py_strip_both_ends[of "format_f p v" "''0''"] by simp
  have bounds: "OsmBoundary_xmlobject lx p self = Inr xmlobject \<longrightarrow>
      attrib_of xmlobject =
        [(''minlon'', py_strip ''0'' (format_f p (minlon self))),
         (''minlat'', py_strip ''0'' (format_f p (minlat self))),
         (''maxlon'', py_strip ''0'' (format_f p (maxlon self))),
         (''maxlat'', py_strip ''0'' (format_f p (maxlat self)))]"
    by (simp add: OsmBoundary_xmlobject_Inr)
  have node: "xmlobject_of lx h [] p (OsmNode i tg ps x y) = Inr built \<longrightarrow>
      attrib_of built =
        [(''visible'', ''true''), (''id'', str_int i),
         (''lat'', py_strip ''0'' (format_f p y)),
         (''lon'', py_strip ''0'' (format_f p x))]"
    using xmlobject_of_node[of lx h "[]" p i tg ps x y built] by auto
  from shape strip strip_52_5 strip_0_0 bounds node show ?thesis
    by (intro conjI)
qed

theorem format_then_strip_zeros_witness:
  \<open>(0::nat) < 6 \<and>
   OsmBoundary_xmlobject lxml_ascii 6
       \<lparr> is_valid = True, minlon = Finite False 0 0, maxlon = Finite False 105 (- 1),
         minlat = Finite False 0 0, maxlat = Finite False 105 (- 1) \<rparr> =
     Inr (Element ''bounds''
       [(''minlon'', ''.''), (''minlat'', ''.''), (''maxlon'', ''52.5''), (''maxlat'', ''52.5'')]
       []) \<and>
   xmlobject_of lxml_ascii [] [] 6
       (OsmNode (- 1) [] {} (Finite False 105 (- 1)) (Finite False 0 0)) =
     Inr (Element ''node''
       [(''visible'', ''true''), (''id'', ''-1''), (''lat'', ''.''), (''lon'', ''52.5'')] []) \<and>
   format_f 6 (Finite False 105 (- 1)) = ''52.500000'' \<and>
   py_strip ''0'' (format_f 6 (Finite False 105 (- 1))) = ''52.5'' \<and>
   OsmBoundary_to_xml lxml_ascii 6
       \<lparr> is_valid = True, minlon = Finite False 0 0, maxlon = Finite False 105 (- 1),
         minlat = Finite False 0 0, maxlat = Finite False 105 (- 1) \<rparr> =
     Inr ''<bounds minlon="." minlat="." maxlon="52.5" maxlat="52.5"/>'' \<and>
   to_xml lxml_ascii [] [] 6
       (OsmNode (- 1) [] {} (Finite False 105 (- 1)) (Finite False 0 0)) =
     Inr ''<node visible="true" id="-1" lat="." lon="52.5"/>''\<close>
proof -
  let ?box = "\<lparr> is_valid = True, minlon = Finite False 0 0, maxlon = Finite False 105 (- 1),
         minlat = Finite False 0 0, maxlat = Finite False 105 (- 1) \<rparr>"
  let ?bounds = "Element ''bounds''
       [(''minlon'', ''.''), (''minlat'', ''.''), (''maxlon'', ''52.5''), (''maxlat'', ''52.5'')]
       []"
  let ?node = "Element ''node''
       [(''visible'', ''true''), (''id'', ''-1''), (''lat'', ''.''), (''lon'', ''52.5'')] []"
  have p: "(0::nat) < 6"
    by simp
  have b: "OsmBoundary_xmlobject lxml_ascii 6 ?box = Inr ?bounds"
    unfolding OsmBoundary_xmlobject_def Let_def OsmBoundary.simps strip_52_5 strip_0_0
    by code_simp
  have n: "xmlobject_of lxml_ascii [] [] 6
       (OsmNode (- 1) [] {} (Finite False 105 (- 1)) (Finite False 0 0)) = Inr ?node"
    unfolding xmlobject_of.simps Let_def strip_52_5 strip_0_0
    by code_simp
  note inst = format_then_strip_zeros[of 6 False 105 "- 1" "Finite False 105 (- 1)"
      lxml_ascii ?box ?bounds "[]" "- 1" "[]" "{}" "Finite False 105 (- 1)" "Finite False 0 0"
      ?node]
  from inst have s: "py_strip ''0'' (format_f 6 (Finite False 105 (- 1))) = ''52.5''"
    by (rule conjunct2[THEN conjunct2, THEN conjunct1])
  from p b n format_52_5 s bounds_52_5 node_52_5 show ?thesis
    by (intro conjI)
qed

text \<open>
  C1 as the specification words it fails twice: 0.0 at precision 6 is written
  \<^verbatim>\<open>.\<close>, not the empty string, and the strip is not of trailing zeros only: 0.5 is
  written \<^verbatim>\<open>.5\<close>.
\<close>

theorem zero_is_written_as_a_point:
  \<open>py_strip ''0'' (format_f 6 (Finite False 0 0)) = ''.'' \<and>
   py_strip ''0'' (format_f 6 (Finite False 0 0)) \<noteq> '''' \<and>
   py_strip ''0'' (format_f 6 (Finite False 1 (- 1))) = ''.5'' \<and>
   to_xml lxml_ascii [] [] 6
       (OsmNode (- 1) [] {} (Finite False 1 (- 1)) (Finite False 0 0)) =
     Inr ''<node visible="true" id="-1" lat="." lon=".5"/>''\<close>
  using strip_0_0 strip_0_5 node_0_5 by simp

text \<open>
  C4, as the code has it. A coordinate that is NaN or infinite is formatted like any
  other: the attribute is the text \<^verbatim>\<open>nan\<close>, \<^verbatim>\<open>inf\<close> or \<^verbatim>\<open>-inf\<close>, which is text
  lxml accepts. \<^verbatim>\<open>OsmNode.to_xml\<close> returns markup exactly when lxml accepts the
  attributes and the tags, whatever the coordinates are, and the only error it raises is
  lxml's \<^verbatim>\<open>ValueError\<close>.
\<close>

theorem non_finite_coordinates_are_written_out:
  "py_strip ''0'' (format_f p NaN) = ''nan'' \<and>
   py_strip ''0'' (format_f p (Infinity s)) = (if s then ''-inf'' else ''inf'') \<and>
   text_ok lxml_ascii ''nan'' \<and> text_ok lxml_ascii ''inf'' \<and> text_ok lxml_ascii ''-inf'' \<and>
   (xmlobject_of lx h attributes p (OsmNode i tg ps x y) = Inr built \<longleftrightarrow>
      accepts lx ''node''
        (dict_update
           [(''visible'', ''true''), (''id'', str_int i),
            (''lat'', py_strip ''0'' (format_f p y)),
            (''lon'', py_strip ''0'' (format_f p x))] attributes) \<and>
      list_all (\<lambda>(key, value_list).
         accepts lx ''tag'' [(''k'', key), (''v'', py_join '','' value_list)]) tg \<and>
      built =
        Element ''node''
          (dict_update
             [(''visible'', ''true''), (''id'', str_int i),
              (''lat'', py_strip ''0'' (format_f p y)),
              (''lon'', py_strip ''0'' (format_f p x))] attributes)
          (map (\<lambda>(key, value_list).
                  Element ''tag'' [(''k'', key), (''v'', py_join '','' value_list)] []) tg)) \<and>
   (to_xml lx h attributes p (OsmNode i tg ps x y) = Inr markup \<longleftrightarrow>
      (\<exists>built. xmlobject_of lx h attributes p (OsmNode i tg ps x y) = Inr built \<and>
         markup = tostring built)) \<and>
   (xmlobject_of lx h attributes p (OsmNode i tg ps x y) = Inl err \<longrightarrow> err = ValueError)"
proof -
  have ok: "text_ok lxml_ascii ''nan'' \<and> text_ok lxml_ascii ''inf'' \<and>
      text_ok lxml_ascii ''-inf''"
    by (simp add: lxml_ascii_def ascii_text_ok_def)
  have err: "xmlobject_of lx h attributes p (OsmNode i tg ps x y) = Inl err \<longrightarrow>
      err = ValueError"
    using node_error_is_ValueError[of lx h attributes p i tg ps x y err] by blast
  from strip_nan[of p] strip_inf[of p s] ok
    xmlobject_of_node[of lx h attributes p i tg ps x y built]
    to_xml_Inr[of lx h attributes p "OsmNode i tg ps x y" markup] err
  show ?thesis by (intro conjI) simp_all
qed

theorem non_finite_coordinates_are_written_out_witness:
  \<open>xmlobject_of lxml_ascii [] [] 6 (OsmNode (- 1) [] {} (Infinity True) NaN) =
     Inr (Element ''node''
       [(''visible'', ''true''), (''id'', ''-1''), (''lat'', ''nan''), (''lon'', ''-inf'')] []) \<and>
   xmlobject_of lxml_ascii [] [(''bad name'', ''1'')] 6
       (OsmNode (- 1) [] {} (Infinity True) NaN) = Inl ValueError\<close>
proof -
  let ?node = "Element ''node''
       [(''visible'', ''true''), (''id'', ''-1''), (''lat'', ''nan''), (''lon'', ''-inf'')] []"
  note inst = non_finite_coordinates_are_written_out[of 6 True lxml_ascii "[]" "[]" "- 1" "[]"
      "{}" "Infinity True" NaN ?node]
  have rhs: "accepts lxml_ascii ''node''
        (dict_update
           [(''visible'', ''true''), (''id'', str_int (- 1)),
            (''lat'', py_strip ''0'' (format_f 6 NaN)),
            (''lon'', py_strip ''0'' (format_f 6 (Infinity True)))] []) \<and>
      list_all (\<lambda>(key, value_list).
         accepts lxml_ascii ''tag'' [(''k'', key), (''v'', py_join '','' value_list)]) [] \<and>
      ?node =
        Element ''node''
          (dict_update
             [(''visible'', ''true''), (''id'', str_int (- 1)),
              (''lat'', py_strip ''0'' (format_f 6 NaN)),
              (''lon'', py_strip ''0'' (format_f 6 (Infinity True)))] [])
          (map (\<lambda>(key, value_list).
                  Element ''tag'' [(''k'', key), (''v'', py_join '','' value_list)] []) [])"
    by code_simp
  have a: "xmlobject_of lxml_ascii [] [] 6 (OsmNode (- 1) [] {} (Infinity True) NaN) = Inr ?node"
    by (rule inst[THEN conjunct2, THEN conjunct2, THEN conjunct2, THEN conjunct2,
          THEN conjunct2, THEN conjunct1, THEN iffD2, OF rhs])
  have b: "xmlobject_of lxml_ascii [] [(''bad name'', ''1'')] 6
       (OsmNode (- 1) [] {} (Infinity True) NaN) = Inl ValueError"
    by code_simp
  from a b show ?thesis by (rule conjI)
qed

text \<open>
  C4 as the specification words it fails: a node whose coordinates are infinite and NaN
  is serialized without an error, to markup that carries \<^verbatim>\<open>inf\<close> and \<^verbatim>\<open>nan\<close>.
\<close>

theorem nan_node_is_serialized:
  \<open>to_xml lxml_ascii [] [] 6 (OsmNode (- 1) [] {} (Infinity False) NaN) =
     Inr ''<node visible="true" id="-1" lat="nan" lon="inf"/>''\<close>
  by (rule node_nan)

end
